theory Spec2Isabelle
  imports Main
begin

section \<open>JavaScript values\<close>

text \<open>
  The branch rules of \<^verbatim>\<open>backend/server.js\<close> and \<^verbatim>\<open>backend/middleware/rbac.js\<close> work on
  branch ids that are numbers, numeric strings, \<^verbatim>\<open>null\<close> or \<^verbatim>\<open>undefined\<close>.

  A number of type \<open>jsnum\<close> is \<^verbatim>\<open>NaN\<close> or an integer. \<open>JInt n\<close> stands for a JavaScript
  number when \<open>n\<close> is at most \<^verbatim>\<open>2^53\<close> in magnitude: those integers are doubles, \<^verbatim>\<open>ToString\<close>
  prints all their digits and \<^verbatim>\<open>parseInt\<close> reads them back exactly. Every id the database
  stores is a 32-bit \<^verbatim>\<open>INTEGER\<close> and lies in that range. Beyond it the arithmetic below stays
  exact where JavaScript rounds to a double and prints with an exponent, so statements about
  values a client sends carry the bound.

  A value a client sends may also be a number that is no such integer (a fraction, an
  integer beyond \<^verbatim>\<open>2^53\<close>, as JSON allows). \<open>JDouble s\<close> is such a number, given by the
  string \<open>s\<close> that \<^verbatim>\<open>ToString\<close> prints for it (\<^verbatim>\<open>7.9\<close>, \<^verbatim>\<open>1e+21\<close>): the code only ever
  tests it for truth, which it has, and converts it to a string. A string is a list of code
  units below 256. Booleans, arrays and objects are left out.
\<close>

datatype jsnum = JInt int | JNaN

datatype jsval = JUndefined | JNull | JNum jsnum | JDouble string | JStr string

text \<open>\<^verbatim>\<open>x == null\<close>: true of \<^verbatim>\<open>null\<close> and \<^verbatim>\<open>undefined\<close> only.\<close>

fun nullish :: "jsval \<Rightarrow> bool" where
  "nullish JUndefined = True"
| "nullish JNull = True"
| "nullish (JNum n) = False"
| "nullish (JDouble s) = False"
| "nullish (JStr s) = False"

text \<open>\<^verbatim>\<open>a ?? b\<close>.\<close>

definition coalesce :: "jsval \<Rightarrow> jsval \<Rightarrow> jsval" where
  "coalesce a b = (if nullish a then b else a)"

text \<open>Truthiness of a number: \<^verbatim>\<open>0\<close> and \<^verbatim>\<open>NaN\<close> are falsy.\<close>

fun truthy :: "jsnum \<Rightarrow> bool" where
  "truthy (JInt n) = (n \<noteq> 0)"
| "truthy JNaN = False"

text \<open>\<^verbatim>\<open>a !== b\<close> on numbers: \<^verbatim>\<open>NaN\<close> differs from everything, itself included.\<close>

fun strictNeq :: "jsnum \<Rightarrow> jsnum \<Rightarrow> bool" where
  "strictNeq (JInt a) (JInt b) = (a \<noteq> b)"
| "strictNeq JNaN b = True"
| "strictNeq a JNaN = True"

text \<open>\<^verbatim>\<open>Number(x)\<close> applied to a number returns it.\<close>

definition Number :: "jsnum \<Rightarrow> jsnum" where
  "Number n = n"

text \<open>A field that holds a number or is absent, read as a value.\<close>

fun js_of :: "jsnum option \<Rightarrow> jsval" where
  "js_of None = JUndefined"
| "js_of (Some n) = JNum n"

text \<open>Truthiness of a value: the empty string is falsy too.\<close>

fun truthyVal :: "jsval \<Rightarrow> bool" where
  "truthyVal JUndefined = False"
| "truthyVal JNull = False"
| "truthyVal (JNum n) = truthy n"
| "truthyVal (JDouble s) = True"
| "truthyVal (JStr s) = (s \<noteq> [])"

text \<open>Reading a property of an object: a missing one is \<^verbatim>\<open>undefined\<close>.\<close>

definition getProp :: "(string \<rightharpoonup> jsval) \<Rightarrow> string \<Rightarrow> jsval" where
  "getProp obj k = (case obj k of None \<Rightarrow> JUndefined | Some v \<Rightarrow> v)"

subsection \<open>Strings\<close>

text \<open>
  \<^verbatim>\<open>toUpperCase\<close> on the letters \<^verbatim>\<open>a\<close> to \<^verbatim>\<open>z\<close>. The code applies it to role names only,
  and compares the result with names written in \<^verbatim>\<open>A\<close> to \<^verbatim>\<open>Z\<close>.
\<close>

definition toUpperChar :: "char \<Rightarrow> char" where
  "toUpperChar c =
     (case map_of (zip ''abcdefghijklmnopqrstuvwxyz'' ''ABCDEFGHIJKLMNOPQRSTUVWXYZ'') c of
        Some u \<Rightarrow> u
      | None \<Rightarrow> c)"

definition toUpperCase :: "string \<Rightarrow> string" where
  "toUpperCase s = map toUpperChar s"

text \<open>\<^verbatim>\<open>xs.join(sep)\<close>.\<close>

fun join :: "string \<Rightarrow> string list \<Rightarrow> string" where
  "join sep [] = []"
| "join sep [x] = x"
| "join sep (x # y # ys) = x @ sep @ join sep (y # ys)"

subsection \<open>ToString of a number\<close>

text \<open>
  The decimal digits of an integer, with a minus sign below zero: what \<^verbatim>\<open>ToString\<close> prints
  for an integer of magnitude below \<^verbatim>\<open>1e21\<close>.
\<close>

definition digitChar :: "nat \<Rightarrow> char" where
  "digitChar d = ''0123456789'' ! d"

fun digits :: "nat \<Rightarrow> string" where
  "digits n = (if n < 10 then [digitChar n] else digits (n div 10) @ [digitChar (n mod 10)])"

declare digits.simps [simp del]

fun numToString :: "jsnum \<Rightarrow> string" where
  "numToString (JInt n) = (if n < 0 then CHR ''-'' # digits (nat (- n)) else digits (nat n))"
| "numToString JNaN = ''NaN''"

fun ToString :: "jsval \<Rightarrow> string" where
  "ToString JUndefined = ''undefined''"
| "ToString JNull = ''null''"
| "ToString (JNum n) = numToString n"
| "ToString (JDouble s) = s"
| "ToString (JStr s) = s"

subsection \<open>parseInt\<close>

text \<open>
  \<^verbatim>\<open>parseInt(x)\<close> with no radix, after ECMAScript: convert to a string, drop leading white
  space, read a sign, read a \<^verbatim>\<open>0x\<close> prefix (radix 16, else radix 10), take the longest
  run of digits of that radix; no digit gives \<^verbatim>\<open>NaN\<close>. The white space among the code units
  below 256 is tab, line feed, vertical tab, form feed, carriage return, space and the
  no-break space. The digits are summed exactly; JavaScript rounds the sum to a double, which
  changes it only beyond \<^verbatim>\<open>2^53\<close>.
\<close>

definition isWhiteSpace :: "char \<Rightarrow> bool" where
  "isWhiteSpace c =
     (c \<in> set [CHR 0x09, CHR 0x0A, CHR 0x0B, CHR 0x0C, CHR 0x0D, CHR '' '', CHR 0xA0])"

text \<open>Value of a character as a digit (letters count from 10); 36 when it is none.\<close>

definition digitValue :: "char \<Rightarrow> nat" where
  "digitValue c =
     (let n = (of_char c :: nat) in
      if 48 \<le> n \<and> n \<le> 57 then n - 48
      else if 97 \<le> n \<and> n \<le> 122 then n - 87
      else if 65 \<le> n \<and> n \<le> 90 then n - 55
      else 36)"

definition mathInt :: "nat \<Rightarrow> string \<Rightarrow> nat" where
  "mathInt R Z = foldl (\<lambda>acc c. acc * R + digitValue c) 0 Z"

definition parseDigits :: "int \<Rightarrow> nat \<Rightarrow> string \<Rightarrow> jsnum" where
  "parseDigits sign R S =
     (let Z = takeWhile (\<lambda>c. digitValue c < R) S in
      if Z = [] then JNaN else JInt (sign * int (mathInt R Z)))"

fun stripPrefix :: "int \<Rightarrow> string \<Rightarrow> jsnum" where
  "stripPrefix sign (a # b # S) =
     (if a = CHR ''0'' \<and> (b = CHR ''x'' \<or> b = CHR ''X'') then parseDigits sign 16 S
      else parseDigits sign 10 (a # b # S))"
| "stripPrefix sign S = parseDigits sign 10 S"

fun readSign :: "string \<Rightarrow> jsnum" where
  "readSign [] = stripPrefix 1 []"
| "readSign (c # S) =
     (if c = CHR ''-'' then stripPrefix (- 1) S
      else if c = CHR ''+'' then stripPrefix 1 S
      else stripPrefix 1 (c # S))"

definition parseInt :: "jsval \<Rightarrow> jsnum" where
  "parseInt x = readSign (dropWhile isWhiteSpace (ToString x))"

section \<open>Users and requests\<close>

text \<open>
  A row of the \<^verbatim>\<open>User\<close> table as the handlers read it. \<^verbatim>\<open>rbac.js\<close> declares
  \<^verbatim>\<open>branchId\<close> optional and every reader guards against a missing one, so it is an
  option here; \<^verbatim>\<open>activeBranchId\<close> is the nullable column.
\<close>

record user =
  user_id :: int
  email :: string
  password :: string
  role :: "string option"
  branchId :: "jsnum option"
  activeBranchId :: "int option"

text \<open>
  What \<^verbatim>\<open>jwt.verify\<close> makes of the \<^verbatim>\<open>Authorization\<close> header: no token, a token that
  does not verify, or a token for a user id.
\<close>

datatype credential = NoToken | InvalidToken | TokenFor int

text \<open>
  The parts of an Express request the handlers read: the header, \<^verbatim>\<open>req.user\<close> and
  \<^verbatim>\<open>req.activeBranchId\<close> (both set by middleware), \<^verbatim>\<open>req.params\<close>, \<^verbatim>\<open>req.query\<close> and
  \<^verbatim>\<open>req.body\<close>.
\<close>

record request =
  authorization :: credential
  req_user :: "user option"
  req_activeBranchId :: "jsnum option"
  req_params :: "string \<rightharpoonup> jsval"
  req_query :: "string \<rightharpoonup> jsval"
  req_body :: "string \<rightharpoonup> jsval"

text \<open>\<^verbatim>\<open>req.user?.role\<close> and \<^verbatim>\<open>req.user?.branchId\<close>.\<close>

definition user_role :: "request \<Rightarrow> string option" where
  "user_role req = (case req_user req of None \<Rightarrow> None | Some u \<Rightarrow> role u)"

definition user_branchId :: "request \<Rightarrow> jsnum option" where
  "user_branchId req = (case req_user req of None \<Rightarrow> None | Some u \<Rightarrow> branchId u)"

text \<open>\<^verbatim>\<open>role || ''\<close>.\<close>

fun or_empty :: "string option \<Rightarrow> string" where
  "or_empty None = []"
| "or_empty (Some s) = s"

section \<open>server.js: resolveBranchId\<close>

text \<open>
  \<^verbatim>\<open>
  const resolveBranchId = (req, candidate) => {
    const role = (req.user?.role || '').toUpperCase();
    if (role !== 'ADMIN') {
      return req.user?.branchId != null ? parseInt(req.user.branchId) : null;
    }
    const chosen = candidate ?? req.activeBranchId ?? req.user?.branchId ?? null;
    return chosen != null ? parseInt(chosen) : null;
  };
  \<close>
  The result is a number or \<^verbatim>\<open>null\<close> (\<open>None\<close>).
\<close>

definition resolveBranchId :: "request \<Rightarrow> jsval \<Rightarrow> jsnum option" where
  "resolveBranchId req candidate =
     (let role = toUpperCase (or_empty (user_role req)) in
      if role \<noteq> ''ADMIN'' then
        (case user_branchId req of None \<Rightarrow> None | Some b \<Rightarrow> Some (parseInt (JNum b)))
      else
        (let chosen =
           coalesce (coalesce (coalesce candidate (js_of (req_activeBranchId req)))
                              (js_of (user_branchId req))) JNull
         in if nullish chosen then None else Some (parseInt chosen)))"

section \<open>rbac.js\<close>

text \<open>A response \<^verbatim>\<open>res.status(s).json({ message: m })\<close>.\<close>

datatype response = Response nat string

text \<open>A middleware either calls \<^verbatim>\<open>next()\<close> or answers and ends the request.\<close>

datatype step = Next request | Respond response

definition normalizeRole :: "string option \<Rightarrow> string" where
  "normalizeRole r = toUpperCase (or_empty r)"

definition requireRoles :: "string list \<Rightarrow> request \<Rightarrow> step" where
  "requireRoles allowedRoles req =
     (let allowed = map (\<lambda>r. normalizeRole (Some r)) allowedRoles;
          role = normalizeRole (user_role req) in
      if role = [] then Respond (Response 401 ''Authentication required'')
      else if role \<notin> set allowed then
        Respond (Response 403
          (''Access denied: role '' @ role @ '' requires '' @ join '', '' allowed))
      else Next req)"

text \<open>
  The resolver argument of \<^verbatim>\<open>enforceBranchAccess\<close> is a function of the request or a
  constant; a function may throw, which the middleware catches.
\<close>

datatype 'a thrown = Returned 'a | Threw

datatype resolver = ResolverFn "request \<Rightarrow> jsnum option thrown" | ResolverConst "jsnum option"

fun resolve :: "resolver \<Rightarrow> request \<Rightarrow> jsnum option thrown" where
  "resolve (ResolverFn f) req = f req"
| "resolve (ResolverConst c) req = Returned c"

definition mismatchMessage :: "jsnum \<Rightarrow> jsnum \<Rightarrow> string" where
  "mismatchMessage resourceBranchId userBranchId =
     ''Branch access denied: resource branch '' @ numToString resourceBranchId
       @ '' does not match active branch '' @ numToString userBranchId"

definition enforceBranchAccess :: "resolver \<Rightarrow> request \<Rightarrow> step" where
  "enforceBranchAccess resolver req =
     (let role = normalizeRole (user_role req) in
      if role = [] then Respond (Response 401 ''Authentication required'')
      else if role = ''ADMIN'' then Next req
      else
        (let userBranchId = user_branchId req in
         case resolve resolver req of
           Threw \<Rightarrow> Respond (Response 500 ''Branch enforcement failed'')
         | Returned resolved \<Rightarrow>
             (case map_option Number resolved of
                None \<Rightarrow> Respond (Response 400 ''Branch context required'')
              | Some resourceBranchId \<Rightarrow>
                  if \<not> truthy resourceBranchId then
                    Respond (Response 400 ''Branch context required'')
                  else
                    (case userBranchId of
                       None \<Rightarrow> Respond (Response 403 ''Branch access denied: no active branch'')
                     | Some ub \<Rightarrow>
                         if \<not> truthy ub then
                           Respond (Response 403 ''Branch access denied: no active branch'')
                         else if strictNeq (Number resourceBranchId) (Number ub) then
                           Respond (Response 403 (mismatchMessage resourceBranchId ub))
                         else Next req))))"

definition blockChefFromNonOrders :: "request \<Rightarrow> step" where
  "blockChefFromNonOrders req =
     (let role = normalizeRole (user_role req) in
      if role = ''CHEF'' then
        Respond (Response 403 ''CHEF role can only access Orders. Access denied.'')
      else Next req)"

section \<open>server.js: the database and the middleware that reads it\<close>

text \<open>
  The tables the branch rules touch: the rows of \<^verbatim>\<open>User\<close>, the ids of \<^verbatim>\<open>Branch\<close>, the
  next value of the \<^verbatim>\<open>SERIAL\<close> id of \<^verbatim>\<open>User\<close>, and of each \<^verbatim>\<open>Order\<close> its id and its
  \<^verbatim>\<open>branchId\<close>.
\<close>

record database =
  users :: "user list"
  branches :: "int list"
  user_seq :: int
  orders :: "(int \<times> int) list"

text \<open>\<^verbatim>\<open>prisma.user.findUnique({ where: { id } })\<close> and \<^verbatim>\<open>{ where: { email } }\<close>.\<close>

definition findUserById :: "database \<Rightarrow> int \<Rightarrow> user option" where
  "findUserById db i = find (\<lambda>u. user_id u = i) (users db)"

definition findUserByEmail :: "database \<Rightarrow> string \<Rightarrow> user option" where
  "findUserByEmail db e = find (\<lambda>u. email u = e) (users db)"

text \<open>
  \<^verbatim>\<open>
  const authenticateToken = async (req, res, next) => {
    try {
      const authHeader = req.headers['authorization'];
      const token = authHeader && authHeader.split(' ')[1];
      if (!token) return res.status(401).json({ message: 'Authentication required' });
      const decoded = jwt.verify(token, process.env.JWT_SECRET);
      const user = await prisma.user.findUnique({ where: { id: decoded.userId } });
      if (!user) return res.status(401).json({ message: 'User not found' });
      req.user = user;
      next();
    } catch (error) {
      res.status(401).json({ message: 'Invalid token' });
    }
  };
  \<close>
\<close>

definition authenticateToken :: "database \<Rightarrow> request \<Rightarrow> step" where
  "authenticateToken db req =
     (case authorization req of
        NoToken \<Rightarrow> Respond (Response 401 ''Authentication required'')
      | InvalidToken \<Rightarrow> Respond (Response 401 ''Invalid token'')
      | TokenFor userId \<Rightarrow>
          (case findUserById db userId of
             None \<Rightarrow> Respond (Response 401 ''User not found'')
           | Some u \<Rightarrow> Next (req\<lparr>req_user := Some u\<rparr>)))"

text \<open>
  \<^verbatim>\<open>
  const attachActiveBranch = async (req, res, next) => {
    try {
      if (!req.user) return next();
      const u = await prisma.user.findUnique({
        where: { id: req.user.id }, select: { activeBranchId: true } });
      req.activeBranchId = u?.activeBranchId || null;
    } catch (e) {
      req.activeBranchId = null;
    } finally {
      next();
    }
  };
  \<close>
  \<^verbatim>\<open>x || null\<close> turns a stored \<^verbatim>\<open>0\<close> into \<^verbatim>\<open>null\<close>.
\<close>

definition attachActiveBranch :: "database \<Rightarrow> request \<Rightarrow> step" where
  "attachActiveBranch db req =
     (case req_user req of
        None \<Rightarrow> Next req
      | Some ru \<Rightarrow>
          Next (req\<lparr>req_activeBranchId :=
            (case findUserById db (user_id ru) of
               None \<Rightarrow> None
             | Some u \<Rightarrow>
                 (case activeBranchId u of
                    None \<Rightarrow> None
                  | Some a \<Rightarrow> if truthy (JInt a) then Some (JInt a) else None))\<rparr>))"

section \<open>server.js: the routes and their middleware chains\<close>

datatype middleware =
    AuthenticateToken
  | AttachActiveBranch
  | BlockChefFromNonOrders
  | RequireRoles "string list"
  | EnforceBranchAccess resolver

fun runMiddleware :: "database \<Rightarrow> middleware \<Rightarrow> request \<Rightarrow> step" where
  "runMiddleware db AuthenticateToken req = authenticateToken db req"
| "runMiddleware db AttachActiveBranch req = attachActiveBranch db req"
| "runMiddleware db BlockChefFromNonOrders req = blockChefFromNonOrders req"
| "runMiddleware db (RequireRoles allowedRoles) req = requireRoles allowedRoles req"
| "runMiddleware db (EnforceBranchAccess resolver) req = enforceBranchAccess resolver req"

text \<open>
  Express runs the middleware of a route in the order they are written; one that answers
  without calling \<^verbatim>\<open>next()\<close> ends the request.
\<close>

fun runChain :: "database \<Rightarrow> middleware list \<Rightarrow> request \<Rightarrow> step" where
  "runChain db [] req = Next req"
| "runChain db (m # ms) req =
     (case runMiddleware db m req of
        Respond r \<Rightarrow> Respond r
      | Next req' \<Rightarrow> runChain db ms req')"

text \<open>The resolvers the routes pass to \<^verbatim>\<open>enforceBranchAccess\<close>.\<close>

definition byBodyBranchId :: resolver where
  "byBodyBranchId = ResolverFn (\<lambda>req. Returned (resolveBranchId req (getProp (req_body req) ''branchId'')))"

definition byQueryBranchId :: resolver where
  "byQueryBranchId = ResolverFn (\<lambda>req. Returned (resolveBranchId req (getProp (req_query req) ''branchId'')))"

definition byParamsBranchId :: resolver where
  "byParamsBranchId = ResolverFn (\<lambda>req. Returned (resolveBranchId req (getProp (req_params req) ''branchId'')))"

definition byParamsId :: resolver where
  "byParamsId = ResolverFn (\<lambda>req. Returned (resolveBranchId req (getProp (req_params req) ''id'')))"

definition byQueryOrActive :: resolver where
  "byQueryOrActive =
     ResolverFn (\<lambda>req. Returned (resolveBranchId req
       (coalesce (getProp (req_query req) ''branchId'') (js_of (req_activeBranchId req)))))"

definition everyRole :: "string list" where
  "everyRole = [''ADMIN'', ''MANAGER'', ''CHEF'', ''STAFF'', ''CUSTOMER'']"

definition notChef :: "string list" where
  "notChef = [''ADMIN'', ''MANAGER'', ''STAFF'', ''CUSTOMER'']"

text \<open>
  Every route of \<^verbatim>\<open>server.js\<close> and \<^verbatim>\<open>testRoutes.js\<close> that mounts \<^verbatim>\<open>authenticateToken\<close>,
  with its middleware as written, in file order.
\<close>

definition routes :: "(string \<times> string \<times> middleware list) list" where
  "routes =
   [(''POST'', ''/api/orders/create'',
       [AuthenticateToken, AttachActiveBranch, AttachActiveBranch, RequireRoles everyRole,
        EnforceBranchAccess byBodyBranchId]),
    (''GET'', ''/api/orders'',
       [AuthenticateToken, AttachActiveBranch, RequireRoles everyRole,
        EnforceBranchAccess byQueryBranchId]),
    (''GET'', ''/api/orders/:branchId'',
       [AuthenticateToken, AttachActiveBranch, RequireRoles everyRole,
        EnforceBranchAccess byParamsBranchId]),
    (''PATCH'', ''/api/orders/status/:id'',
       [AuthenticateToken, AttachActiveBranch, RequireRoles [''ADMIN'', ''MANAGER'', ''CHEF'']]),
    (''GET'', ''/api/inventory/:branchId'',
       [AuthenticateToken, AttachActiveBranch, BlockChefFromNonOrders,
        RequireRoles [''ADMIN'', ''MANAGER'', ''STAFF''], EnforceBranchAccess byParamsBranchId]),
    (''POST'', ''/api/inventory/create'',
       [AuthenticateToken, AttachActiveBranch, RequireRoles [''ADMIN'', ''MANAGER'']]),
    (''POST'', ''/api/inventory/create-with-item'',
       [AuthenticateToken, AttachActiveBranch, RequireRoles [''ADMIN'', ''MANAGER'']]),
    (''PATCH'', ''/api/inventory/:id'',
       [AuthenticateToken, AttachActiveBranch, RequireRoles [''ADMIN'', ''MANAGER'']]),
    (''POST'', ''/api/reservations/create'',
       [AuthenticateToken, AttachActiveBranch, BlockChefFromNonOrders, RequireRoles notChef,
        EnforceBranchAccess byBodyBranchId]),
    (''GET'', ''/api/reservations'',
       [AuthenticateToken, AttachActiveBranch, BlockChefFromNonOrders, RequireRoles notChef,
        EnforceBranchAccess byQueryOrActive]),
    (''GET'', ''/api/reservations/:branchId'',
       [AuthenticateToken, AttachActiveBranch, BlockChefFromNonOrders, RequireRoles notChef,
        EnforceBranchAccess byParamsBranchId]),
    (''GET'', ''/api/users/:id/active-branch'', [AuthenticateToken]),
    (''PATCH'', ''/api/users/:id/active-branch'', [AuthenticateToken, RequireRoles [''ADMIN'']]),
    (''PATCH'', ''/api/reservations/status/:id'',
       [AuthenticateToken, BlockChefFromNonOrders, RequireRoles [''ADMIN'', ''MANAGER'', ''STAFF'']]),
    (''POST'', ''/api/feedback/create'',
       [AuthenticateToken, AttachActiveBranch, BlockChefFromNonOrders, RequireRoles notChef,
        EnforceBranchAccess byBodyBranchId]),
    (''GET'', ''/api/feedback/:branchId'',
       [AuthenticateToken, AttachActiveBranch, BlockChefFromNonOrders, RequireRoles notChef,
        EnforceBranchAccess byParamsBranchId]),
    (''PATCH'', ''/api/feedback/reply/:id'',
       [AuthenticateToken, RequireRoles [''ADMIN'', ''MANAGER'', ''STAFF'']]),
    (''PATCH'', ''/api/feedback/approve/:id'',
       [AuthenticateToken, RequireRoles [''ADMIN'', ''MANAGER'', ''STAFF'']]),
    (''DELETE'', ''/api/feedback/:id'',
       [AuthenticateToken, RequireRoles [''ADMIN'', ''MANAGER'', ''STAFF'']]),
    (''GET'', ''/api/branches/:id/analytics'',
       [AuthenticateToken, AttachActiveBranch, RequireRoles [''ADMIN'', ''MANAGER''],
        EnforceBranchAccess byParamsId]),
    (''GET'', ''/api/branches'',
       [AuthenticateToken, RequireRoles [''ADMIN'', ''MANAGER'', ''CHEF'', ''STAFF'']]),
    (''POST'', ''/api/branches/seed-sample'', [AuthenticateToken]),
    (''PATCH'', ''/api/branches/:id/settings'',
       [AuthenticateToken, RequireRoles [''ADMIN'', ''MANAGER''], EnforceBranchAccess byParamsId]),
    (''GET'', ''/api/branches/:id/settings'',
       [AuthenticateToken, RequireRoles [''ADMIN'', ''MANAGER''], EnforceBranchAccess byParamsId]),
    (''POST'', ''/api/admin/staff'', [AuthenticateToken, RequireRoles [''ADMIN'']]),
    (''PATCH'', ''/api/admin/staff/:id/reset-password'', [AuthenticateToken, RequireRoles [''ADMIN'']]),
    (''GET'', ''/api/admin/staff/:branchId'', [AuthenticateToken, RequireRoles [''ADMIN'', ''MANAGER'']]),
    (''POST'', ''/api/admin/staff/create'', [AuthenticateToken, RequireRoles [''ADMIN'']]),
    (''POST'', ''/api/admin/users'', [AuthenticateToken, RequireRoles [''ADMIN'']]),
    (''POST'', ''/api/admin/users/:id/reset-password'', [AuthenticateToken, RequireRoles [''ADMIN'']]),
    (''GET'', ''/api/test/branches/:branchId/prices'', [AuthenticateToken]),
    (''POST'', ''/api/test/branches/:branchId/prices'', [AuthenticateToken]),
    (''PATCH'', ''/api/test/prices/:id'', [AuthenticateToken]),
    (''DELETE'', ''/api/test/prices/:id'', [AuthenticateToken]),
    (''GET'', ''/api/test/branches/:branchId/inventory'', [AuthenticateToken]),
    (''POST'', ''/api/test/branches/:branchId/inventory'', [AuthenticateToken]),
    (''PATCH'', ''/api/test/inventory/:id'', [AuthenticateToken]),
    (''DELETE'', ''/api/test/inventory/:id'', [AuthenticateToken]),
    (''GET'', ''/api/test/branches/:branchId/staff'', [AuthenticateToken]),
    (''POST'', ''/api/test/branches/:branchId/staff'', [AuthenticateToken]),
    (''PATCH'', ''/api/test/staff/:id'', [AuthenticateToken]),
    (''DELETE'', ''/api/test/staff/:id'', [AuthenticateToken])]"

text \<open>The middleware of a route, looked up by method and path.\<close>

definition chainOf :: "string \<Rightarrow> string \<Rightarrow> middleware list" where
  "chainOf method path =
     (case find (\<lambda>(m, p, ms). m = method \<and> p = path) routes of
        None \<Rightarrow> []
      | Some (m, p, ms) \<Rightarrow> ms)"

section \<open>server.js: list handlers\<close>

text \<open>
  The \<^verbatim>\<open>where\<close> clause a list handler hands to \<^verbatim>\<open>findMany\<close>: a branch filter and a
  user filter, each present or left out.
\<close>

record branchWhere =
  where_branchId :: "jsnum option"
  where_userId :: "int option"

fun truthyOpt :: "jsnum option \<Rightarrow> bool" where
  "truthyOpt None = False"
| "truthyOpt (Some n) = truthy n"

text \<open>
  \<^verbatim>\<open>GET /api/reservations\<close>:
  \<^verbatim>\<open>
  const role = (req.user.role || '').toUpperCase();
  const branchId = resolveBranchId(req, req.query.branchId ?? req.activeBranchId);
  const where = {
    ...(branchId ? { branchId } : {}),
    ...(role === 'CUSTOMER' ? { userId: req.user.id } : {})
  };
  const reservations = await prisma.reservation.findMany({
    where: branchId ? { ...where, branchId } : where, include: { user: true } });
  res.json(reservations);
  \<close>
  The result is the error response or the \<^verbatim>\<open>where\<close> clause of the query that is run.
\<close>

definition getReservationsHandler :: "request \<Rightarrow> response + branchWhere" where
  "getReservationsHandler req =
     (case req_user req of
        None \<Rightarrow> Inl (Response 400 ''Error fetching reservations'')
      | Some u \<Rightarrow>
          (let role = toUpperCase (or_empty (role u));
               branchId = resolveBranchId req
                 (coalesce (getProp (req_query req) ''branchId'') (js_of (req_activeBranchId req)));
               wh = \<lparr>where_branchId = (if truthyOpt branchId then branchId else None),
                     where_userId = (if role = ''CUSTOMER'' then Some (user_id u) else None)\<rparr>
           in Inr (if truthyOpt branchId then wh\<lparr>where_branchId := branchId\<rparr> else wh)))"

definition getReservations :: "database \<Rightarrow> request \<Rightarrow> response + branchWhere" where
  "getReservations db req =
     (case runChain db (chainOf ''GET'' ''/api/reservations'') req of
        Respond r \<Rightarrow> Inl r
      | Next req' \<Rightarrow> getReservationsHandler req')"

text \<open>
  \<^verbatim>\<open>GET /api/orders/:branchId\<close>, the same list with a guard:
  \<^verbatim>\<open>
  const role = (req.user.role || '').toUpperCase();
  const branchId = resolveBranchId(req, req.params.branchId);
  if (!branchId) return res.status(400).json({ message: 'branchId is required' });
  const where = { branchId, ...(role === 'CUSTOMER' ? { userId: req.user.id } : {}) };
  const orders = await prisma.order.findMany({
    where: branchId ? { ...where, branchId } : where, ... });
  \<close>
\<close>

definition getOrdersByBranchHandler :: "request \<Rightarrow> response + branchWhere" where
  "getOrdersByBranchHandler req =
     (case req_user req of
        None \<Rightarrow> Inl (Response 400 ''Error fetching orders'')
      | Some u \<Rightarrow>
          (let role = toUpperCase (or_empty (role u));
               branchId = resolveBranchId req (getProp (req_params req) ''branchId'')
           in if \<not> truthyOpt branchId then Inl (Response 400 ''branchId is required'')
              else
                (let wh = \<lparr>where_branchId = branchId,
                           where_userId = (if role = ''CUSTOMER'' then Some (user_id u) else None)\<rparr>
                 in Inr (if truthyOpt branchId then wh\<lparr>where_branchId := branchId\<rparr> else wh))))"

definition getOrdersByBranch :: "database \<Rightarrow> request \<Rightarrow> response + branchWhere" where
  "getOrdersByBranch db req =
     (case runChain db (chainOf ''GET'' ''/api/orders/:branchId'') req of
        Respond r \<Rightarrow> Inl r
      | Next req' \<Rightarrow> getOrdersByBranchHandler req')"

text \<open>
  \<^verbatim>\<open>GET /api/admin/staff/:branchId\<close>:
  \<^verbatim>\<open>
  const branchId = parseInt(req.params.branchId);
  if (Number.isNaN(branchId)) return res.status(400).json({ message: 'Invalid branchId' });
  const role = (req.user?.role || '').toUpperCase();
  if (role !== 'ADMIN') {
    const userBranchId = parseInt(req.user?.branchId);
    if (userBranchId !== branchId)
      return res.status(403).json({ message: 'Branch access denied' });
  }
  const staff = await prisma.$queryRaw`... WHERE "branchId" = ${branchId} ...`;
  \<close>
  The result is the error response or the branch id the staff query is run for.
\<close>

definition listStaffHandler :: "request \<Rightarrow> response + int" where
  "listStaffHandler req =
     (case parseInt (getProp (req_params req) ''branchId'') of
        JNaN \<Rightarrow> Inl (Response 400 ''Invalid branchId'')
      | JInt b \<Rightarrow>
          (let role = toUpperCase (or_empty (user_role req)) in
           if role \<noteq> ''ADMIN''
              \<and> strictNeq (parseInt (js_of (user_branchId req))) (JInt b)
           then Inl (Response 403 ''Branch access denied'')
           else Inr b))"

definition listStaff :: "database \<Rightarrow> request \<Rightarrow> response + int" where
  "listStaff db req =
     (case runChain db (chainOf ''GET'' ''/api/admin/staff/:branchId'') req of
        Respond r \<Rightarrow> Inl r
      | Next req' \<Rightarrow> listStaffHandler req')"

section \<open>server.js: a handler keyed by the resource\<close>

text \<open>
  \<^verbatim>\<open>PATCH /api/orders/status/:id\<close>, mounted after \<^verbatim>\<open>authenticateToken\<close>,
  \<^verbatim>\<open>attachActiveBranch\<close> and \<^verbatim>\<open>requireRoles(['ADMIN', 'MANAGER', 'CHEF'])\<close>, loads the order
  and compares its branch itself:
  \<^verbatim>\<open>
  try {
    const { id } = req.params;
    const { status } = req.body;
    const role = (req.user.role || '').toUpperCase();
    const order = await prisma.order.findUnique({
      where: { id: parseInt(id) }, select: { id: true, branchId: true, userId: true } });
    if (!order) return res.status(404).json({ message: 'Order not found' });
    const userBranchId = resolveBranchId(req);
    if (!userBranchId || Number(order.branchId) !== Number(userBranchId)) {
      return res.status(403).json({ message: 'Branch access denied for order update' });
    }
    const updated = await prisma.order.update({ where: { id: order.id }, data: { status } });
    res.json(updated);
  } catch (error) {
    res.status(400).json({ message: 'Error updating order status' });
  }
  \<close>
  \<^verbatim>\<open>role\<close> is computed and not used. The result is the error response or the id of the
  order whose update is issued.
\<close>

definition updateOrderStatusHandler :: "database \<Rightarrow> request \<Rightarrow> response + int" where
  "updateOrderStatusHandler db req =
     (case req_user req of
        None \<Rightarrow> Inl (Response 400 ''Error updating order status'')
      | Some ru \<Rightarrow>
          (case parseInt (getProp (req_params req) ''id'') of
             JNaN \<Rightarrow> Inl (Response 400 ''Error updating order status'')
           | JInt i \<Rightarrow>
               (case map_of (orders db) i of
                  None \<Rightarrow> Inl (Response 404 ''Order not found'')
                | Some orderBranchId \<Rightarrow>
                    (case resolveBranchId req JUndefined of
                       None \<Rightarrow> Inl (Response 403 ''Branch access denied for order update'')
                     | Some userBranchId \<Rightarrow>
                         if \<not> truthy userBranchId
                            \<or> strictNeq (Number (JInt orderBranchId)) (Number userBranchId)
                         then Inl (Response 403 ''Branch access denied for order update'')
                         else Inr i))))"

definition updateOrderStatus :: "database \<Rightarrow> request \<Rightarrow> response + int" where
  "updateOrderStatus db req =
     (case runChain db (chainOf ''PATCH'' ''/api/orders/status/:id'') req of
        Respond r \<Rightarrow> Inl r
      | Next req' \<Rightarrow> updateOrderStatusHandler db req')"

section \<open>server.js: handlers that write the User table\<close>

text \<open>
  Three Prisma calls in \<^verbatim>\<open>server.js\<close> write \<^verbatim>\<open>User\<close>. Each throws when the database
  refuses the write; the handlers catch that.

  \<^verbatim>\<open>prisma.user.create({ data: { email, password, role, branchId } })\<close>: a new row with the
  next id and no active branch. The email is unique and the branch must exist.
\<close>

definition createUser ::
  "database \<Rightarrow> string \<Rightarrow> string \<Rightarrow> string \<Rightarrow> int \<Rightarrow> (user \<times> database) thrown" where
  "createUser db e p r b =
     (if findUserByEmail db e \<noteq> None \<or> b \<notin> set (branches db)
         \<or> findUserById db (user_seq db) \<noteq> None
      then Threw
      else
        (let u = \<lparr>user_id = user_seq db, email = e, password = p, role = Some r,
                  branchId = Some (JInt b), activeBranchId = None\<rparr>
         in Returned (u, db\<lparr>users := users db @ [u], user_seq := user_seq db + 1\<rparr>)))"

text \<open>\<^verbatim>\<open>prisma.user.update({ where: { id }, data: { password } })\<close>.\<close>

definition updatePassword :: "database \<Rightarrow> int \<Rightarrow> string \<Rightarrow> (user \<times> database) thrown" where
  "updatePassword db i p =
     (case findUserById db i of
        None \<Rightarrow> Threw
      | Some u \<Rightarrow>
          Returned (u\<lparr>password := p\<rparr>,
            db\<lparr>users := map (\<lambda>x. if user_id x = i then x\<lparr>password := p\<rparr> else x) (users db)\<rparr>))"

text \<open>\<^verbatim>\<open>prisma.user.update({ where: { id }, data: { activeBranchId } })\<close>.\<close>

definition updateActiveBranchId :: "database \<Rightarrow> int \<Rightarrow> int \<Rightarrow> (user \<times> database) thrown" where
  "updateActiveBranchId db i b =
     (case findUserById db i of
        None \<Rightarrow> Threw
      | Some u \<Rightarrow>
          if b \<notin> set (branches db) then Threw
          else
            Returned (u\<lparr>activeBranchId := Some b\<rparr>,
              db\<lparr>users :=
                map (\<lambda>x. if user_id x = i then x\<lparr>activeBranchId := Some b\<rparr> else x) (users db)\<rparr>))"

text \<open>
  \<^verbatim>\<open>PATCH /api/users/:id/active-branch\<close>, mounted after \<^verbatim>\<open>authenticateToken\<close> and
  \<^verbatim>\<open>requireRoles(['ADMIN'])\<close>:
  \<^verbatim>\<open>
  try {
    const userId = parseInt(req.params.id);
    if (userId !== req.user.id)
      return res.status(403).json({ message: 'Cannot modify other user active branch' });
    const { branchId } = req.body;
    if (!branchId) return res.status(400).json({ message: 'branchId required' });
    const branch = await prisma.branch.findUnique({ where: { id: branchId } });
    if (!branch) return res.status(404).json({ message: 'Branch not found' });
    const updated = await prisma.user.update({
      where: { id: userId }, data: { activeBranchId: branchId } });
    res.json({ activeBranchId: updated.activeBranchId });
  } catch (error) {
    res.status(400).json({ message: 'Error updating active branch' });
  }
  \<close>
  Prisma throws on an id that is not an integer. The result is the error response or the
  \<^verbatim>\<open>activeBranchId\<close> sent back, with the database after the request.
\<close>

definition patchActiveBranchHandler ::
  "database \<Rightarrow> request \<Rightarrow> (response + int option) \<times> database" where
  "patchActiveBranchHandler db req =
     (case req_user req of
        None \<Rightarrow> (Inl (Response 400 ''Error updating active branch''), db)
      | Some ru \<Rightarrow>
          (case parseInt (getProp (req_params req) ''id'') of
             JNaN \<Rightarrow> (Inl (Response 403 ''Cannot modify other user active branch''), db)
           | JInt userId \<Rightarrow>
               if userId \<noteq> user_id ru then
                 (Inl (Response 403 ''Cannot modify other user active branch''), db)
               else if \<not> truthyVal (getProp (req_body req) ''branchId'') then
                 (Inl (Response 400 ''branchId required''), db)
               else
                 (case getProp (req_body req) ''branchId'' of
                    JNum (JInt b) \<Rightarrow>
                      if b \<notin> set (branches db) then (Inl (Response 404 ''Branch not found''), db)
                      else
                        (case updateActiveBranchId db userId b of
                           Threw \<Rightarrow> (Inl (Response 400 ''Error updating active branch''), db)
                         | Returned (updated, db') \<Rightarrow> (Inr (activeBranchId updated), db'))
                  | _ \<Rightarrow> (Inl (Response 400 ''Error updating active branch''), db))))"

definition patchActiveBranch ::
  "database \<Rightarrow> request \<Rightarrow> (response + int option) \<times> database" where
  "patchActiveBranch db req =
     (case runChain db (chainOf ''PATCH'' ''/api/users/:id/active-branch'') req of
        Respond r \<Rightarrow> (Inl r, db)
      | Next req' \<Rightarrow> patchActiveBranchHandler db req')"

text \<open>
  \<^verbatim>\<open>POST /api/auth/signup\<close>, with no middleware:
  \<^verbatim>\<open>
  try {
    const { email, password, branchId } = req.body;
    const hashedPassword = await bcrypt.hash(password, 10);
    const user = await prisma.user.create({
      data: { email, password: hashedPassword, role: 'CUSTOMER', branchId } });
    const token = jwt.sign({ userId: user.id }, process.env.JWT_SECRET);
    res.json({ user, token });
  } catch (error) {
    res.status(400).json({ message: 'Error creating user' });
  }
  \<close>
  \<^verbatim>\<open>bcrypt.hash\<close> is a parameter; it throws on a password that is not a string, and Prisma
  throws on an email that is not a string or a branch id that is not an integer.
\<close>

definition signup ::
  "(string \<Rightarrow> string) \<Rightarrow> database \<Rightarrow> request \<Rightarrow> (response + user) \<times> database" where
  "signup hash db req =
     (case getProp (req_body req) ''password'' of
        JStr p \<Rightarrow>
          (case getProp (req_body req) ''email'' of
             JStr e \<Rightarrow>
               (case getProp (req_body req) ''branchId'' of
                  JNum (JInt b) \<Rightarrow>
                    (case createUser db e (hash p) ''CUSTOMER'' b of
                       Threw \<Rightarrow> (Inl (Response 400 ''Error creating user''), db)
                     | Returned (u, db') \<Rightarrow> (Inr u, db'))
                | _ \<Rightarrow> (Inl (Response 400 ''Error creating user''), db))
           | _ \<Rightarrow> (Inl (Response 400 ''Error creating user''), db))
      | _ \<Rightarrow> (Inl (Response 400 ''Error creating user''), db))"

text \<open>
  The three staff creation routes (\<^verbatim>\<open>POST /api/admin/staff\<close>,
  \<^verbatim>\<open>POST /api/admin/staff/create\<close>, \<^verbatim>\<open>POST /api/admin/users\<close>), each mounted after
  \<^verbatim>\<open>authenticateToken\<close> and \<^verbatim>\<open>requireRoles(['ADMIN'])\<close>, share one body and differ in the
  roles they accept, in their messages, and in \<^verbatim>\<open>role.toString().toUpperCase()\<close> against
  \<^verbatim>\<open>role.toUpperCase()\<close> (which throws on a role that is not a string):
  \<^verbatim>\<open>
  try {
    const { email, password, role, branchId } = req.body;
    if (!email || !password || !role || !branchId)
      return res.status(400).json({ message: 'Missing required fields: ...' });
    const normalizedRole = role.toString().toUpperCase();
    if (!allowedRoles.includes(normalizedRole))
      return res.status(400).json({ message: `Invalid role. ...` });
    const existing = await prisma.user.findUnique({ where: { email } });
    if (existing)
      return res.status(400).json({ message: 'User with this email already exists' });
    const parsedBranchId = parseInt(branchId);
    if (Number.isNaN(parsedBranchId))
      return res.status(400).json({ message: 'Invalid branchId' });
    const branch = await prisma.branch.findUnique({ where: { id: parsedBranchId } });
    if (!branch) return res.status(404).json({ message: 'Branch not found' });
    const hashedPassword = await bcrypt.hash(password, 10);
    const user = await prisma.user.create({
      data: { email, password: hashedPassword, role: normalizedRole, branchId: parsedBranchId },
      select: ... });
    res.status(201).json({ message: ..., user });
  } catch (error) {
    res.status(500).json({ message: ..., error: error.message });
  }
  \<close>
\<close>

record creationRoute =
  route_path :: string
  allowedRoles :: "string list"
  invalidRoleMessage :: string
  errorMessage :: string
  roleToString :: bool

definition adminStaff :: creationRoute where
  "adminStaff =
     \<lparr>route_path = ''/api/admin/staff'',
      allowedRoles = [''MANAGER'', ''CHEF'', ''STAFF''],
      invalidRoleMessage = ''Invalid role. Must be one of: MANAGER, CHEF, STAFF'',
      errorMessage = ''Error creating staff'',
      roleToString = True\<rparr>"

definition adminStaffCreate :: creationRoute where
  "adminStaffCreate =
     \<lparr>route_path = ''/api/admin/staff/create'',
      allowedRoles = [''ADMIN'', ''MANAGER'', ''CHEF'', ''SERVER'', ''HOST'', ''BARTENDER'',
                      ''RUNNER'', ''STAFF'', ''CUSTOMER''],
      invalidRoleMessage = ''Invalid role. Must be one of: ADMIN, MANAGER, CHEF, SERVER, HOST, BARTENDER, RUNNER, STAFF, CUSTOMER'',
      errorMessage = ''Error creating staff member'',
      roleToString = False\<rparr>"

definition adminUsers :: creationRoute where
  "adminUsers =
     \<lparr>route_path = ''/api/admin/users'',
      allowedRoles = [''MANAGER'', ''CHEF'', ''STAFF''],
      invalidRoleMessage = ''Invalid role. Must be one of: MANAGER, CHEF, STAFF. ADMIN role creation is restricted.'',
      errorMessage = ''Error creating user'',
      roleToString = True\<rparr>"

definition createStaffHandler ::
  "creationRoute \<Rightarrow> (string \<Rightarrow> string) \<Rightarrow> database \<Rightarrow> request
     \<Rightarrow> (response + user) \<times> database" where
  "createStaffHandler cr hash db req =
     (let e = getProp (req_body req) ''email'';
          p = getProp (req_body req) ''password'';
          r = getProp (req_body req) ''role'';
          b = getProp (req_body req) ''branchId''
      in
      if \<not> truthyVal e \<or> \<not> truthyVal p \<or> \<not> truthyVal r \<or> \<not> truthyVal b then
        (Inl (Response 400 ''Missing required fields: email, password, role, branchId''), db)
      else if \<not> roleToString cr \<and> (case r of JStr s \<Rightarrow> False | _ \<Rightarrow> True) then
        (Inl (Response 500 (errorMessage cr)), db)
      else
        (let normalizedRole = toUpperCase (ToString r) in
         if normalizedRole \<notin> set (allowedRoles cr) then
           (Inl (Response 400 (invalidRoleMessage cr)), db)
         else
           (case e of
              JStr em \<Rightarrow>
                if findUserByEmail db em \<noteq> None then
                  (Inl (Response 400 ''User with this email already exists''), db)
                else
                  (case parseInt b of
                     JNaN \<Rightarrow> (Inl (Response 400 ''Invalid branchId''), db)
                   | JInt parsedBranchId \<Rightarrow>
                       if parsedBranchId \<notin> set (branches db) then
                         (Inl (Response 404 ''Branch not found''), db)
                       else
                         (case p of
                            JStr pw \<Rightarrow>
                              (case createUser db em (hash pw) normalizedRole parsedBranchId of
                                 Threw \<Rightarrow> (Inl (Response 500 (errorMessage cr)), db)
                               | Returned (u, db') \<Rightarrow> (Inr u, db'))
                          | _ \<Rightarrow> (Inl (Response 500 (errorMessage cr)), db)))
            | _ \<Rightarrow> (Inl (Response 500 (errorMessage cr)), db))))"

definition createStaff ::
  "creationRoute \<Rightarrow> (string \<Rightarrow> string) \<Rightarrow> database \<Rightarrow> request
     \<Rightarrow> (response + user) \<times> database" where
  "createStaff cr hash db req =
     (case runChain db (chainOf ''POST'' (route_path cr)) req of
        Respond r \<Rightarrow> (Inl r, db)
      | Next req' \<Rightarrow> createStaffHandler cr hash db req')"

text \<open>
  The two password resets, each mounted after \<^verbatim>\<open>authenticateToken\<close> and
  \<^verbatim>\<open>requireRoles(['ADMIN'])\<close>. \<^verbatim>\<open>PATCH /api/admin/staff/:id/reset-password\<close>:
  \<^verbatim>\<open>
  try {
    const userId = parseInt(req.params.id);
    const { password: newPassword } = req.body;
    if (!newPassword || newPassword.length < 3)
      return res.status(400).json({ message: 'Password must be at least 3 characters' });
    const existing = await prisma.user.findUnique({ where: { id: userId } });
    if (!existing) return res.status(404).json({ message: 'User not found' });
    const hashedPassword = await bcrypt.hash(newPassword, 10);
    const updated = await prisma.user.update({
      where: { id: userId }, data: { password: hashedPassword }, select: ... });
    res.json({ message: 'Password reset successfully', user: updated });
  } catch (error) {
    res.status(500).json({ message: 'Error resetting password', error: error.message });
  }
  \<close>
  \<^verbatim>\<open>POST /api/admin/users/:id/reset-password\<close> reads \<^verbatim>\<open>req.body.newPassword\<close> and answers a
  \<^verbatim>\<open>NaN\<close> id with 400 \<^verbatim>\<open>Invalid user ID\<close> instead of letting Prisma throw.
\<close>

definition resetPasswordHandler ::
  "string \<Rightarrow> response \<Rightarrow> (string \<Rightarrow> string) \<Rightarrow> database \<Rightarrow> request
     \<Rightarrow> (response + user) \<times> database" where
  "resetPasswordHandler field onNaN hash db req =
     (let newPassword = getProp (req_body req) field in
      if \<not> truthyVal newPassword \<or> (case newPassword of JStr s \<Rightarrow> length s < 3 | _ \<Rightarrow> False) then
        (Inl (Response 400 ''Password must be at least 3 characters''), db)
      else
        (case parseInt (getProp (req_params req) ''id'') of
           JNaN \<Rightarrow> (Inl onNaN, db)
         | JInt userId \<Rightarrow>
             (case findUserById db userId of
                None \<Rightarrow> (Inl (Response 404 ''User not found''), db)
              | Some existing \<Rightarrow>
                  (case newPassword of
                     JStr pw \<Rightarrow>
                       (case updatePassword db userId (hash pw) of
                          Threw \<Rightarrow> (Inl (Response 500 ''Error resetting password''), db)
                        | Returned (updated, db') \<Rightarrow> (Inr updated, db'))
                   | _ \<Rightarrow> (Inl (Response 500 ''Error resetting password''), db)))))"

definition resetStaffPassword ::
  "(string \<Rightarrow> string) \<Rightarrow> database \<Rightarrow> request \<Rightarrow> (response + user) \<times> database" where
  "resetStaffPassword hash db req =
     (case runChain db (chainOf ''PATCH'' ''/api/admin/staff/:id/reset-password'') req of
        Respond r \<Rightarrow> (Inl r, db)
      | Next req' \<Rightarrow>
          resetPasswordHandler ''password'' (Response 500 ''Error resetting password'') hash db req')"

definition resetUserPassword ::
  "(string \<Rightarrow> string) \<Rightarrow> database \<Rightarrow> request \<Rightarrow> (response + user) \<times> database" where
  "resetUserPassword hash db req =
     (case runChain db (chainOf ''POST'' ''/api/admin/users/:id/reset-password'') req of
        Respond r \<Rightarrow> (Inl r, db)
      | Next req' \<Rightarrow>
          resetPasswordHandler ''newPassword'' (Response 400 ''Invalid user ID'') hash db req')"

text \<open>
  The requests that write \<^verbatim>\<open>User\<close>, and the database each leaves behind. No other handler
  of \<^verbatim>\<open>server.js\<close> or \<^verbatim>\<open>testRoutes.js\<close> calls \<^verbatim>\<open>prisma.user.create\<close> or
  \<^verbatim>\<open>prisma.user.update\<close>.
\<close>

datatype operation =
    Signup
  | CreateStaff creationRoute
  | ResetStaffPassword
  | ResetUserPassword
  | PatchActiveBranch

fun perform :: "(string \<Rightarrow> string) \<Rightarrow> operation \<Rightarrow> database \<Rightarrow> request \<Rightarrow> database" where
  "perform hash Signup db req = snd (signup hash db req)"
| "perform hash (CreateStaff cr) db req = snd (createStaff cr hash db req)"
| "perform hash ResetStaffPassword db req = snd (resetStaffPassword hash db req)"
| "perform hash ResetUserPassword db req = snd (resetUserPassword hash db req)"
| "perform hash PatchActiveBranch db req = snd (patchActiveBranch db req)"

text \<open>The stored active branch of the user with a given id.\<close>

definition activeBranchOf :: "database \<Rightarrow> int \<Rightarrow> int option option" where
  "activeBranchOf db i = map_option activeBranchId (findUserById db i)"

section \<open>Reference notions and sample data\<close>

text \<open>The first defined value of a priority list, as the specification words it.\<close>

fun firstDefined :: "'a option list \<Rightarrow> 'a option" where
  "firstDefined [] = None"
| "firstDefined (None # xs) = firstDefined xs"
| "firstDefined (Some x # xs) = Some x"



text \<open>
  An integer that is a double and that \<^verbatim>\<open>ToString\<close> and \<^verbatim>\<open>parseInt\<close> carry exactly: at most
  \<^verbatim>\<open>2^53\<close> in magnitude.
\<close>

definition exactInt :: "int \<Rightarrow> bool" where
  "exactInt n = (- 9007199254740992 \<le> n \<and> n \<le> 9007199254740992)"


text \<open>A user row with a role and a home branch, and no active branch stored.\<close>

definition member :: "int \<Rightarrow> string \<Rightarrow> int \<Rightarrow> user" where
  "member i r b =
     \<lparr>user_id = i, email = r @ ''@steakz.com'', password = ''hash'', role = Some r,
      branchId = Some (JInt b), activeBranchId = None\<rparr>"

text \<open>A request as it arrives: a credential and nothing set by middleware yet.\<close>

definition incoming :: "credential \<Rightarrow> request" where
  "incoming c =
     \<lparr>authorization = c, req_user = None, req_activeBranchId = None,
      req_params = Map.empty, req_query = Map.empty, req_body = Map.empty\<rparr>"

text \<open>A request after \<^verbatim>\<open>authenticateToken\<close> found the user.\<close>

definition requestOf :: "user \<Rightarrow> request" where
  "requestOf u = (incoming (TokenFor (user_id u)))\<lparr>req_user := Some u\<rparr>"

text \<open>
  A database with one user of each role, an \<^verbatim>\<open>ADMIN\<close> whose stored active branch is 3,
  a second \<^verbatim>\<open>ADMIN\<close>, an order of branch 7 and an order of branch 3.
\<close>

definition sampleDb :: database where
  "sampleDb =
     \<lparr>users =
        [(member 1 ''ADMIN'' 1)\<lparr>activeBranchId := Some 3\<rparr>,
         member 2 ''MANAGER'' 5,
         member 3 ''CHEF'' 2,
         member 4 ''STAFF'' 2,
         member 5 ''CUSTOMER'' 2,
         (member 8 ''ADMIN'' 1)\<lparr>email := ''owner@steakz.com''\<rparr>],
      branches = [1, 2, 3, 5, 7, 9],
      user_seq = 9,
      orders = [(100, 7), (101, 3)]\<rparr>"

text \<open>
  The order the routes mount their middleware in: authentication, the active branch, the
  \<^verbatim>\<open>CHEF\<close> category block, the role check, the branch check.
\<close>

fun guardOrder :: "middleware \<Rightarrow> nat" where
  "guardOrder AuthenticateToken = 0"
| "guardOrder AttachActiveBranch = 1"
| "guardOrder BlockChefFromNonOrders = 2"
| "guardOrder (RequireRoles allowed) = 3"
| "guardOrder (EnforceBranchAccess resolver) = 4"

section \<open>Properties\<close>

subsection \<open>parseInt of a number\<close>

lemma digitChar_value: "d < 10 \<Longrightarrow> digitValue (digitChar d) = d"
proof -
  assume "d < 10"
  then have "d \<in> {0,1,2,3,4,5,6,7,8,9}" by auto
  then show ?thesis
    by (auto simp add: digitChar_def digitValue_def)
qed

lemma digits_all_decimal: "\<forall>c \<in> set (digits n). digitValue c < 10"
proof (induction n rule: digits.induct)
  case (1 n)
  show ?case
  proof (cases "n < 10")
    case True
    then show ?thesis by (simp add: digits.simps [of n] digitChar_value)
  next
    case False
    with 1 show ?thesis by (simp add: digits.simps [of n] digitChar_value)
  qed
qed

lemma mathInt_snoc: "mathInt R (Z @ [c]) = mathInt R Z * R + digitValue c"
  by (simp add: mathInt_def)

lemma mathInt_digits: "mathInt 10 (digits n) = n"
proof (induction n rule: digits.induct)
  case (1 n)
  show ?case
  proof (cases "n < 10")
    case True
    then show ?thesis by (simp add: digits.simps [of n] mathInt_def digitChar_value)
  next
    case False
    with 1 have "mathInt 10 (digits (n div 10)) = n div 10" by simp
    with False show ?thesis
      by (simp add: digits.simps [of n] mathInt_snoc digitChar_value)
  qed
qed

lemma digits_nonempty: "digits n \<noteq> []"
  by (simp add: digits.simps [of n])

lemma digits_no_hex_prefix:
  "digits n = a # b # S \<Longrightarrow> \<not> (a = CHR ''0'' \<and> (b = CHR ''x'' \<or> b = CHR ''X''))"
  using digits_all_decimal [of n] by (auto simp: digitValue_def)

lemma parseDigits_digits: "parseDigits sign 10 (digits n) = JInt (sign * int n)"
proof -
  have "takeWhile (\<lambda>c. digitValue c < 10) (digits n) = digits n"
    using digits_all_decimal [of n] by simp
  then show ?thesis
    unfolding parseDigits_def Let_def by (simp only: digits_nonempty mathInt_digits if_False)
qed

lemma stripPrefix_digits: "stripPrefix sign (digits n) = JInt (sign * int n)"
proof (cases "digits n")
  case Nil
  then show ?thesis by (simp add: digits_nonempty)
next
  case (Cons a S)
  note outer = Cons
  show ?thesis
  proof (cases S)
    case Nil
    with outer have "stripPrefix sign (digits n) = parseDigits sign 10 (digits n)" by simp
    then show ?thesis by (simp add: parseDigits_digits)
  next
    case (Cons b S')
    with outer have shape: "digits n = a # b # S'" by simp
    then have "stripPrefix sign (digits n) = parseDigits sign 10 (digits n)"
      using digits_no_hex_prefix [OF shape] by auto
    then show ?thesis by (simp add: parseDigits_digits)
  qed
qed

lemma digits_hd_plain:
  "digits n = c # cs \<Longrightarrow> \<not> isWhiteSpace c \<and> c \<noteq> CHR ''-'' \<and> c \<noteq> CHR ''+''"
  using digits_all_decimal [of n] by (auto simp: digitValue_def isWhiteSpace_def)

lemma readSign_digits: "readSign (digits n) = JInt (int n)"
proof (cases "digits n")
  case Nil
  then show ?thesis by (simp add: digits_nonempty)
next
  case (Cons c cs)
  then have "readSign (digits n) = stripPrefix 1 (digits n)"
    using digits_hd_plain [OF Cons] by simp
  then show ?thesis by (simp add: stripPrefix_digits)
qed

lemma dropWhile_digits: "dropWhile isWhiteSpace (digits n) = digits n"
proof (cases "digits n")
  case Nil
  then show ?thesis by simp
next
  case (Cons c cs)
  then show ?thesis using digits_hd_plain [OF Cons] by simp
qed

lemma parseInt_JInt: "parseInt (JNum (JInt n)) = JInt n"
proof (cases "n < 0")
  case True
  then have "parseInt (JNum (JInt n)) = stripPrefix (- 1) (digits (nat (- n)))"
    by (simp add: parseInt_def isWhiteSpace_def)
  with True show ?thesis by (simp add: stripPrefix_digits)
next
  case False
  then show ?thesis by (simp add: parseInt_def dropWhile_digits readSign_digits)
qed

lemma parseInt_JNaN: "parseInt (JNum JNaN) = JNaN"
  by (simp add: parseInt_def isWhiteSpace_def parseDigits_def digitValue_def)

lemma parseInt_number: "parseInt (JNum b) = b"
  by (cases b) (simp_all add: parseInt_JInt parseInt_JNaN)











lemma same_branch:
  "truthy a \<Longrightarrow> truthy b \<Longrightarrow> \<not> strictNeq a b \<Longrightarrow> \<exists>n. n \<noteq> 0 \<and> a = JInt n \<and> b = JInt n"
  by (cases a; cases b) auto

lemma toUpperCase_roles:
  "toUpperCase ''ADMIN'' = ''ADMIN''" "toUpperCase ''MANAGER'' = ''MANAGER''"
  "toUpperCase ''CHEF'' = ''CHEF''" "toUpperCase ''STAFF'' = ''STAFF''"
  "toUpperCase ''CUSTOMER'' = ''CUSTOMER''"
  by (simp_all add: toUpperCase_def toUpperChar_def)

subsection \<open>The branch resolver\<close>

text \<open>
  C1. For an actor whose role is not \<^verbatim>\<open>ADMIN\<close> (the role as the resolver reads it: upper
  case, empty when missing), \<^verbatim>\<open>resolveBranchId\<close> returns the actor's own \<^verbatim>\<open>branchId\<close>, or
  \<^verbatim>\<open>null\<close> when there is none, whatever is requested; changing the request's
  \<^verbatim>\<open>activeBranchId\<close> or the requested id does not change the result.
\<close>

theorem resolveBranchId_non_admin_locked:
  assumes "toUpperCase (or_empty (user_role req)) \<noteq> ''ADMIN''"
  shows "resolveBranchId req candidate = user_branchId req
       \<and> resolveBranchId (req\<lparr>req_activeBranchId := active\<rparr>) candidate' = resolveBranchId req candidate"
  using assms
  by (simp add: resolveBranchId_def user_branchId_def user_role_def parseInt_number
           split: option.splits)

text \<open>
  Scenario C: a \<^verbatim>\<open>MANAGER\<close> of branch 2 who asks for branch 9 gets branch 2, with or without
  an active branch on the request.
\<close>

theorem resolveBranchId_non_admin_locked_witness:
  "toUpperCase (or_empty (user_role (requestOf (member 7 ''MANAGER'' 2)))) \<noteq> ''ADMIN''
   \<and> resolveBranchId (requestOf (member 7 ''MANAGER'' 2)) (JNum (JInt 9)) = Some (JInt 2)
   \<and> resolveBranchId ((requestOf (member 7 ''MANAGER'' 2))\<lparr>req_activeBranchId := Some (JInt 9)\<rparr>)
        (JStr ''abc'') = Some (JInt 2)"
proof -
  have h: "toUpperCase (or_empty (user_role (requestOf (member 7 ''MANAGER'' 2)))) \<noteq> ''ADMIN''"
    by (simp add: user_role_def requestOf_def member_def toUpperCase_roles)
  have b: "user_branchId (requestOf (member 7 ''MANAGER'' 2)) = Some (JInt 2)"
    by (simp add: user_branchId_def requestOf_def member_def)
  show ?thesis
    using h b
      resolveBranchId_non_admin_locked [OF h, of "JNum (JInt 9)" "Some (JInt 9)" "JStr ''abc''"]
    by simp
qed




text \<open>
  C3. For an \<^verbatim>\<open>ADMIN\<close>, when the requested id is absent (\<^verbatim>\<open>undefined\<close> or \<^verbatim>\<open>null\<close>) or an
  integer of magnitude at most \<^verbatim>\<open>2^53\<close>, \<^verbatim>\<open>resolveBranchId\<close> returns the first defined
  value among the requested id, the request's \<^verbatim>\<open>activeBranchId\<close> and the user's
  \<^verbatim>\<open>branchId\<close>, and \<^verbatim>\<open>null\<close> when none is defined.
\<close>

theorem resolveBranchId_admin_first_defined:
  assumes "toUpperCase (or_empty (user_role req)) = ''ADMIN''"
      and "c = None \<or> (\<exists>n. exactInt n \<and> c = Some (JInt n))"
  shows "resolveBranchId req (js_of c) = firstDefined [c, req_activeBranchId req, user_branchId req]
       \<and> resolveBranchId req JNull = firstDefined [None, req_activeBranchId req, user_branchId req]"
  using assms(1)
  by (cases c; cases "req_activeBranchId req"; cases "user_branchId req")
     (simp_all add: resolveBranchId_def coalesce_def parseInt_number)

text \<open>
  Scenario B through the middleware: the \<^verbatim>\<open>ADMIN\<close> with home branch 1 and stored active
  branch 3 is authenticated, \<^verbatim>\<open>attachActiveBranch\<close> puts 3 on the request, and with no
  requested id the resolver returns 3; when the same \<^verbatim>\<open>ADMIN\<close> requests branch 9 it
  returns 9.
\<close>

theorem resolveBranchId_admin_first_defined_witness:
  "runChain sampleDb [AuthenticateToken, AttachActiveBranch] (incoming (TokenFor 1))
     = Next ((incoming (TokenFor 1))
         \<lparr>req_user := Some ((member 1 ''ADMIN'' 1)\<lparr>activeBranchId := Some 3\<rparr>),
          req_activeBranchId := Some (JInt 3)\<rparr>)
   \<and> toUpperCase (or_empty (user_role ((incoming (TokenFor 1))
         \<lparr>req_user := Some ((member 1 ''ADMIN'' 1)\<lparr>activeBranchId := Some 3\<rparr>),
          req_activeBranchId := Some (JInt 3)\<rparr>))) = ''ADMIN''
   \<and> exactInt 9
   \<and> resolveBranchId ((incoming (TokenFor 1))
         \<lparr>req_user := Some ((member 1 ''ADMIN'' 1)\<lparr>activeBranchId := Some 3\<rparr>),
          req_activeBranchId := Some (JInt 3)\<rparr>) JUndefined = Some (JInt 3)
   \<and> resolveBranchId ((incoming (TokenFor 1))
         \<lparr>req_user := Some ((member 1 ''ADMIN'' 1)\<lparr>activeBranchId := Some 3\<rparr>),
          req_activeBranchId := Some (JInt 3)\<rparr>) (JNum (JInt 9)) = Some (JInt 9)"
proof -
  let ?r = "(incoming (TokenFor 1))
         \<lparr>req_user := Some ((member 1 ''ADMIN'' 1)\<lparr>activeBranchId := Some 3\<rparr>),
          req_activeBranchId := Some (JInt 3)\<rparr>"
  have f: "findUserById sampleDb 1 = Some ((member 1 ''ADMIN'' 1)\<lparr>activeBranchId := Some 3\<rparr>)"
    by (simp add: findUserById_def sampleDb_def member_def)
  have c: "runChain sampleDb [AuthenticateToken, AttachActiveBranch] (incoming (TokenFor 1)) = Next ?r"
    by (simp add: authenticateToken_def attachActiveBranch_def f incoming_def member_def)
  have h: "toUpperCase (or_empty (user_role ?r)) = ''ADMIN''"
    by (simp add: user_role_def member_def toUpperCase_roles)
  have v: "req_activeBranchId ?r = Some (JInt 3)" by simp
  have e: "exactInt 9" by (simp add: exactInt_def)
  have n: "(None :: jsnum option) = None \<or> (\<exists>n. exactInt n \<and> (None :: jsnum option) = Some (JInt n))"
    by simp
  have s: "Some (JInt 9) = None \<or> (\<exists>n. exactInt n \<and> Some (JInt 9) = Some (JInt n))"
    using e by simp
  from resolveBranchId_admin_first_defined [OF h n]
  have a: "resolveBranchId ?r JUndefined = Some (JInt 3)"
    by (simp only: js_of.simps firstDefined.simps v)
  from resolveBranchId_admin_first_defined [OF h s]
  have b: "resolveBranchId ?r (JNum (JInt 9)) = Some (JInt 9)"
    by (simp only: js_of.simps firstDefined.simps)
  from c h e a b show ?thesis by blast
qed

text \<open>
  A requested number that is no such integer is coerced by \<^verbatim>\<open>parseInt\<close> like a string:
  \<^verbatim>\<open>7.9\<close> gives 7, and \<^verbatim>\<open>1e21\<close>, which \<^verbatim>\<open>ToString\<close> prints as \<^verbatim>\<open>1e+21\<close>, gives 1.
\<close>

lemma resolveBranchId_admin_other_number:
  assumes "toUpperCase (or_empty (user_role req)) = ''ADMIN''"
  shows "resolveBranchId req (JDouble ''7.9'') = Some (JInt 7)"
    and "resolveBranchId req (JDouble ''1e+21'') = Some (JInt 1)"
  using assms
  by (simp_all add: resolveBranchId_def coalesce_def parseInt_def isWhiteSpace_def
        parseDigits_def digitValue_def mathInt_def)

subsection \<open>The branch access check\<close>

text \<open>
  For an \<^verbatim>\<open>ADMIN\<close>, \<^verbatim>\<open>enforceBranchAccess\<close> calls \<^verbatim>\<open>next()\<close> whatever the resolver is: the
  resource's branch is not looked at.
\<close>

lemma enforceBranchAccess_admin_allows:
  assumes "normalizeRole (user_role req) = ''ADMIN''"
  shows "enforceBranchAccess resolver req = Next req"
  using assms by (simp add: enforceBranchAccess_def)

text \<open>
  C4, as the code has it. For an actor with a role other than \<^verbatim>\<open>ADMIN\<close>,
  \<^verbatim>\<open>enforceBranchAccess\<close> calls \<^verbatim>\<open>next()\<close> if and only if the resource's branch id is
  defined, not zero, and equal to the actor's \<^verbatim>\<open>branchId\<close>. Two different non-zero ids are
  answered with 403 and the mismatch message; a missing or zero resource branch id with 400
  \<^verbatim>\<open>Branch context required\<close>; a missing or zero actor branch id with 400 or 403, never
  \<^verbatim>\<open>next()\<close>.
\<close>

theorem enforceBranchAccess_non_admin:
  assumes "normalizeRole (user_role req) \<noteq> []"
      and "normalizeRole (user_role req) \<noteq> ''ADMIN''"
      and "resolve resolver req = Returned resourceBranchId"
  shows "(enforceBranchAccess resolver req = Next req
            \<longleftrightarrow> (\<exists>n. n \<noteq> 0 \<and> resourceBranchId = Some (JInt n) \<and> user_branchId req = Some (JInt n)))
       \<and> (\<forall>a b. a \<noteq> 0 \<and> b \<noteq> 0 \<and> a \<noteq> b \<and> resourceBranchId = Some (JInt a)
                \<and> user_branchId req = Some (JInt b)
             \<longrightarrow> enforceBranchAccess resolver req
                   = Respond (Response 403 (mismatchMessage (JInt a) (JInt b))))
       \<and> (resourceBranchId = None \<or> resourceBranchId = Some (JInt 0)
             \<longrightarrow> enforceBranchAccess resolver req = Respond (Response 400 ''Branch context required''))
       \<and> (user_branchId req = None \<or> user_branchId req = Some (JInt 0)
             \<longrightarrow> (\<exists>s m. (s = 400 \<or> s = 403)
                       \<and> enforceBranchAccess resolver req = Respond (Response s m)))"
  using assms
  by (auto simp: enforceBranchAccess_def Number_def dest: same_branch
           split: option.splits jsnum.splits)

text \<open>
  Scenario A: a \<^verbatim>\<open>MANAGER\<close> of branch 5 asking for a resource of branch 7 is answered with
  403 and the mismatch message.
\<close>

theorem enforceBranchAccess_non_admin_witness:
  "normalizeRole (user_role (requestOf (member 7 ''MANAGER'' 5))) \<noteq> []
   \<and> normalizeRole (user_role (requestOf (member 7 ''MANAGER'' 5))) \<noteq> ''ADMIN''
   \<and> resolve (ResolverConst (Some (JInt 7))) (requestOf (member 7 ''MANAGER'' 5))
       = Returned (Some (JInt 7))
   \<and> enforceBranchAccess (ResolverConst (Some (JInt 7))) (requestOf (member 7 ''MANAGER'' 5))
       = Respond (Response 403
           ''Branch access denied: resource branch 7 does not match active branch 5'')"
proof -
  have r: "normalizeRole (user_role (requestOf (member 7 ''MANAGER'' 5))) = ''MANAGER''"
    by (simp add: normalizeRole_def user_role_def requestOf_def member_def toUpperCase_roles)
  have h1: "normalizeRole (user_role (requestOf (member 7 ''MANAGER'' 5))) \<noteq> []"
    using r by simp
  have h2: "normalizeRole (user_role (requestOf (member 7 ''MANAGER'' 5))) \<noteq> ''ADMIN''"
    using r by simp
  have h3: "resolve (ResolverConst (Some (JInt 7))) (requestOf (member 7 ''MANAGER'' 5))
              = Returned (Some (JInt 7))"
    by simp
  have b: "user_branchId (requestOf (member 7 ''MANAGER'' 5)) = Some (JInt 5)"
    by (simp add: user_branchId_def requestOf_def member_def)
  have m: "mismatchMessage (JInt 7) (JInt 5)
             = ''Branch access denied: resource branch 7 does not match active branch 5''"
    by (simp add: mismatchMessage_def digits.simps digitChar_def)
  show ?thesis
    using h1 h2 h3 b m enforceBranchAccess_non_admin [OF h1 h2 h3]
    by simp
qed

text \<open>
  The claim as stated fails at zero: for a \<^verbatim>\<open>MANAGER\<close> of branch 0 and a resource of
  branch 0 the two ids are defined and equal, and the request is answered with 400.
\<close>

theorem enforceBranchAccess_equal_zero_counterexample:
  "user_branchId (requestOf (member 7 ''MANAGER'' 0)) = Some (JInt 0)
   \<and> enforceBranchAccess (ResolverConst (Some (JInt 0))) (requestOf (member 7 ''MANAGER'' 0))
       = Respond (Response 400 ''Branch context required'')"
  by (simp add: enforceBranchAccess_def normalizeRole_def user_role_def user_branchId_def
        requestOf_def member_def incoming_def toUpperCase_roles Number_def)

text \<open>
  C10. For an actor with a role other than \<^verbatim>\<open>ADMIN\<close>, a resource branch id that resolves
  to 0 or to \<^verbatim>\<open>NaN\<close> is answered with 400 \<^verbatim>\<open>Branch context required\<close>, and a request
  where the resource's or the actor's branch id is 0 never reaches \<^verbatim>\<open>next()\<close>, also when
  both are 0.
\<close>

theorem enforceBranchAccess_zero_is_absent:
  assumes "normalizeRole (user_role req) \<noteq> []"
      and "normalizeRole (user_role req) \<noteq> ''ADMIN''"
      and "resolve resolver req = Returned resourceBranchId"
  shows "(resourceBranchId = Some (JInt 0) \<or> resourceBranchId = Some JNaN
            \<longrightarrow> enforceBranchAccess resolver req = Respond (Response 400 ''Branch context required''))
       \<and> (resourceBranchId = Some (JInt 0) \<or> user_branchId req = Some (JInt 0)
            \<longrightarrow> enforceBranchAccess resolver req \<noteq> Next req)"
  using assms
  by (auto simp: enforceBranchAccess_def Number_def split: option.splits jsnum.splits)

theorem enforceBranchAccess_zero_is_absent_witness:
  "normalizeRole (user_role (requestOf (member 4 ''STAFF'' 0))) \<noteq> []
   \<and> normalizeRole (user_role (requestOf (member 4 ''STAFF'' 0))) \<noteq> ''ADMIN''
   \<and> resolve (ResolverConst (Some (JInt 0))) (requestOf (member 4 ''STAFF'' 0))
       = Returned (Some (JInt 0))
   \<and> enforceBranchAccess (ResolverConst (Some (JInt 0))) (requestOf (member 4 ''STAFF'' 0))
       = Respond (Response 400 ''Branch context required'')"
proof -
  have r: "normalizeRole (user_role (requestOf (member 4 ''STAFF'' 0))) = ''STAFF''"
    by (simp add: normalizeRole_def user_role_def requestOf_def member_def toUpperCase_roles)
  have h1: "normalizeRole (user_role (requestOf (member 4 ''STAFF'' 0))) \<noteq> []"
    using r by simp
  have h2: "normalizeRole (user_role (requestOf (member 4 ''STAFF'' 0))) \<noteq> ''ADMIN''"
    using r by simp
  have h3: "resolve (ResolverConst (Some (JInt 0))) (requestOf (member 4 ''STAFF'' 0))
              = Returned (Some (JInt 0))"
    by simp
  show ?thesis
    using h1 h2 h3 enforceBranchAccess_zero_is_absent [OF h1 h2 h3]
    by simp
qed

text \<open>
  On the routes the resolver handed to \<^verbatim>\<open>enforceBranchAccess\<close> is \<^verbatim>\<open>resolveBranchId\<close>
  itself, which for these actors returns their own branch: the check then compares the
  actor's branch with itself, and passes whatever branch the request names.
\<close>

lemma enforceBranchAccess_by_own_branch:
  assumes "normalizeRole (user_role req) \<noteq> []"
      and "normalizeRole (user_role req) \<noteq> ''ADMIN''"
      and "user_branchId req = Some (JInt n)" and "n \<noteq> 0"
  shows "enforceBranchAccess byParamsBranchId req = Next req"
    and "enforceBranchAccess byBodyBranchId req = Next req"
    and "enforceBranchAccess byQueryBranchId req = Next req"
    and "enforceBranchAccess byParamsId req = Next req"
    and "enforceBranchAccess byQueryOrActive req = Next req"
  using assms
  by (simp_all add: enforceBranchAccess_def byParamsBranchId_def byBodyBranchId_def
        byQueryBranchId_def byParamsId_def byQueryOrActive_def resolveBranchId_def
        normalizeRole_def parseInt_number Number_def)

text \<open>
  Scenario A on a route keyed by the resource: a \<^verbatim>\<open>MANAGER\<close> of branch 5 updating the
  status of an order of branch 7 is answered with 403 by the handler's own comparison.
\<close>

lemma chainOf_order_status:
  "chainOf ''PATCH'' ''/api/orders/status/:id''
     = [AuthenticateToken, AttachActiveBranch, RequireRoles [''ADMIN'', ''MANAGER'', ''CHEF'']]"
  by (simp add: chainOf_def routes_def)

lemma parseInt_order_ids:
  "parseInt (JStr ''100'') = JInt 100" "parseInt (JStr ''101'') = JInt 101"
  by (simp_all add: parseInt_def isWhiteSpace_def parseDigits_def digitValue_def mathInt_def)

lemma updateOrderStatus_manager_other_branch:
  "updateOrderStatus sampleDb ((incoming (TokenFor 2))\<lparr>req_params := [''id'' \<mapsto> JStr ''100'']\<rparr>)
     = Inl (Response 403 ''Branch access denied for order update'')"
  unfolding updateOrderStatus_def chainOf_order_status
  by (simp add: authenticateToken_def findUserById_def attachActiveBranch_def incoming_def
        requireRoles_def normalizeRole_def user_role_def user_branchId_def member_def
        toUpperCase_roles Let_def updateOrderStatusHandler_def getProp_def parseInt_order_ids
        sampleDb_def resolveBranchId_def parseInt_number Number_def)

text \<open>
  C5 at \<^verbatim>\<open>PATCH /api/orders/status/100\<close> sent by the \<^verbatim>\<open>ADMIN\<close> with home branch 1 and
  stored active branch 3, where order 100 belongs to branch 7. The handler's comparison
  of the order's branch with the resolved branch is not skipped for an \<^verbatim>\<open>ADMIN\<close>, unlike
  \<^verbatim>\<open>enforceBranchAccess\<close> and unlike the handlers for reservations, inventory and feedback:
  the request is answered with 403, and the same \<^verbatim>\<open>ADMIN\<close> is let through on order 101 of
  branch 3.
\<close>

theorem updateOrderStatus_admin_other_branch:
  "map_of (orders sampleDb) 100 = Some 7
   \<and> updateOrderStatus sampleDb
        ((incoming (TokenFor 1))\<lparr>req_params := [''id'' \<mapsto> JStr ''100'']\<rparr>)
       = Inl (Response 403 ''Branch access denied for order update'')
   \<and> map_of (orders sampleDb) 101 = Some 3
   \<and> updateOrderStatus sampleDb
        ((incoming (TokenFor 1))\<lparr>req_params := [''id'' \<mapsto> JStr ''101'']\<rparr>) = Inr 101"
  unfolding updateOrderStatus_def chainOf_order_status
  by (simp add: authenticateToken_def findUserById_def attachActiveBranch_def incoming_def
        requireRoles_def normalizeRole_def user_role_def user_branchId_def member_def
        toUpperCase_roles Let_def updateOrderStatusHandler_def getProp_def parseInt_order_ids
        sampleDb_def resolveBranchId_def coalesce_def parseInt_number Number_def)

subsection \<open>The middleware chains\<close>

lemma runChain_short_circuit:
  "runChain db pre req = Next req' \<Longrightarrow> runMiddleware db g req' = Respond resp
     \<Longrightarrow> runChain db (pre @ g # post) req = Respond resp"
proof (induction pre arbitrary: req)
  case Nil
  then show ?case by simp
next
  case (Cons m pre)
  then show ?case by (cases "runMiddleware db m req") simp_all
qed

lemma routes_ordered:
  "\<forall>(method, path, ms) \<in> set routes.
      (\<exists>rest. ms = AuthenticateToken # rest) \<and> sorted (map guardOrder ms)"
  by (simp add: routes_def)

lemma authenticated_has_user:
  "authenticateToken db req = Next req1 \<Longrightarrow> \<exists>u. req_user req1 = Some u"
  by (auto simp: authenticateToken_def split: credential.splits option.splits)

lemma chef_blocked_on_routes:
  "\<forall>(method, path, ms) \<in> set routes. \<forall>req req1.
      BlockChefFromNonOrders \<in> set ms \<and> authenticateToken db req = Next req1
        \<and> normalizeRole (user_role req1) = ''CHEF''
      \<longrightarrow> runChain db ms req
            = Respond (Response 403 ''CHEF role can only access Orders. Access denied.'')"
  by (auto simp: routes_def attachActiveBranch_def blockChefFromNonOrders_def user_role_def
           dest!: authenticated_has_user split: option.splits)

lemma sample_chef:
  "authenticateToken sampleDb ((incoming (TokenFor 3))\<lparr>req_params := ps\<rparr>)
     = Next ((incoming (TokenFor 3))\<lparr>req_user := Some (member 3 ''CHEF'' 2), req_params := ps\<rparr>)"
  "normalizeRole (user_role ((incoming (TokenFor 3))
     \<lparr>req_user := Some (member 3 ''CHEF'' 2), req_params := ps\<rparr>)) = ''CHEF''"
  by (simp_all add: authenticateToken_def findUserById_def sampleDb_def member_def incoming_def
        normalizeRole_def user_role_def toUpperCase_roles)

text \<open>
  C8, as the code has it. Every route that mounts \<^verbatim>\<open>authenticateToken\<close> mounts it first
  and then, of the guards it has, the active branch, the \<^verbatim>\<open>CHEF\<close> category block, the
  role check and the branch check, in this order; a guard that answers ends the chain,
  whatever comes after it; and on every route that has the category block an
  authenticated \<^verbatim>\<open>CHEF\<close> is answered with the category message, whether or not the role
  check would refuse the role too.
\<close>

theorem guards_category_before_role:
  "(\<forall>(method, path, ms) \<in> set routes.
       (\<exists>rest. ms = AuthenticateToken # rest) \<and> sorted (map guardOrder ms))
   \<and> (\<forall>pre g post req req' resp.
         runChain db pre req = Next req' \<and> runMiddleware db g req' = Respond resp
         \<longrightarrow> runChain db (pre @ g # post) req = Respond resp)
   \<and> (\<forall>(method, path, ms) \<in> set routes. \<forall>req req1.
         BlockChefFromNonOrders \<in> set ms \<and> authenticateToken db req = Next req1
           \<and> normalizeRole (user_role req1) = ''CHEF''
         \<longrightarrow> runChain db ms req
               = Respond (Response 403 ''CHEF role can only access Orders. Access denied.''))"
  using routes_ordered chef_blocked_on_routes [of db] runChain_short_circuit [of db]
  by blast

text \<open>
  A \<^verbatim>\<open>CHEF\<close> of branch 2 listing the reservations of branch 2: the route has the category
  block, and the answer is the category message.
\<close>

theorem guards_category_before_role_witness:
  "(''GET'', ''/api/reservations/:branchId'',
      [AuthenticateToken, AttachActiveBranch, BlockChefFromNonOrders, RequireRoles notChef,
       EnforceBranchAccess byParamsBranchId]) \<in> set routes
   \<and> authenticateToken sampleDb
        ((incoming (TokenFor 3))\<lparr>req_params := [''branchId'' \<mapsto> JStr ''2'']\<rparr>)
       = Next ((incoming (TokenFor 3))
           \<lparr>req_user := Some (member 3 ''CHEF'' 2), req_params := [''branchId'' \<mapsto> JStr ''2'']\<rparr>)
   \<and> normalizeRole (user_role ((incoming (TokenFor 3))
           \<lparr>req_user := Some (member 3 ''CHEF'' 2), req_params := [''branchId'' \<mapsto> JStr ''2'']\<rparr>))
       = ''CHEF''
   \<and> runChain sampleDb
        [AuthenticateToken, AttachActiveBranch, BlockChefFromNonOrders, RequireRoles notChef,
         EnforceBranchAccess byParamsBranchId]
        ((incoming (TokenFor 3))\<lparr>req_params := [''branchId'' \<mapsto> JStr ''2'']\<rparr>)
       = Respond (Response 403 ''CHEF role can only access Orders. Access denied.'')"
proof -
  let ?ms = "[AuthenticateToken, AttachActiveBranch, BlockChefFromNonOrders, RequireRoles notChef,
              EnforceBranchAccess byParamsBranchId]"
  let ?req = "(incoming (TokenFor 3))\<lparr>req_params := [''branchId'' \<mapsto> JStr ''2'']\<rparr>"
  let ?req1 = "(incoming (TokenFor 3))
           \<lparr>req_user := Some (member 3 ''CHEF'' 2), req_params := [''branchId'' \<mapsto> JStr ''2'']\<rparr>"
  have r: "(''GET'', ''/api/reservations/:branchId'', ?ms) \<in> set routes"
    by (simp add: routes_def)
  have a: "authenticateToken sampleDb ?req = Next ?req1"
    by (rule sample_chef)
  have c: "normalizeRole (user_role ?req1) = ''CHEF''"
    by (rule sample_chef)
  have b: "BlockChefFromNonOrders \<in> set ?ms" by simp
  from guards_category_before_role [of sampleDb]
  have "\<forall>(method, path, ms) \<in> set routes. \<forall>req req1.
         BlockChefFromNonOrders \<in> set ms \<and> authenticateToken sampleDb req = Next req1
           \<and> normalizeRole (user_role req1) = ''CHEF''
         \<longrightarrow> runChain sampleDb ms req
               = Respond (Response 403 ''CHEF role can only access Orders. Access denied.'')"
    by blast
  with r have "\<forall>req req1.
         BlockChefFromNonOrders \<in> set ?ms \<and> authenticateToken sampleDb req = Next req1
           \<and> normalizeRole (user_role req1) = ''CHEF''
         \<longrightarrow> runChain sampleDb ?ms req
               = Respond (Response 403 ''CHEF role can only access Orders. Access denied.'')"
    by fast
  with a b c have "runChain sampleDb ?ms ?req
      = Respond (Response 403 ''CHEF role can only access Orders. Access denied.'')"
    by blast
  with r a c show ?thesis by blast
qed

text \<open>
  The claim as stated fails: for a \<^verbatim>\<open>CHEF\<close> on \<^verbatim>\<open>GET /api/inventory/:branchId\<close> both the
  role check and the category check refuse, and the answer of the route is the one of the
  category check.
\<close>

theorem guards_role_before_category_counterexample:
  "requireRoles [''ADMIN'', ''MANAGER'', ''STAFF'']
      ((incoming (TokenFor 3))
         \<lparr>req_user := Some (member 3 ''CHEF'' 2), req_params := [''branchId'' \<mapsto> JStr ''2'']\<rparr>)
     = Respond (Response 403 ''Access denied: role CHEF requires ADMIN, MANAGER, STAFF'')
   \<and> blockChefFromNonOrders
      ((incoming (TokenFor 3))
         \<lparr>req_user := Some (member 3 ''CHEF'' 2), req_params := [''branchId'' \<mapsto> JStr ''2'']\<rparr>)
     = Respond (Response 403 ''CHEF role can only access Orders. Access denied.'')
   \<and> runChain sampleDb (chainOf ''GET'' ''/api/inventory/:branchId'')
        ((incoming (TokenFor 3))\<lparr>req_params := [''branchId'' \<mapsto> JStr ''2'']\<rparr>)
     = Respond (Response 403 ''CHEF role can only access Orders. Access denied.'')"
proof -
  let ?req1 = "(incoming (TokenFor 3))
         \<lparr>req_user := Some (member 3 ''CHEF'' 2), req_params := [''branchId'' \<mapsto> JStr ''2'']\<rparr>"
  have c: "chainOf ''GET'' ''/api/inventory/:branchId''
             = [AuthenticateToken, AttachActiveBranch, BlockChefFromNonOrders,
                RequireRoles [''ADMIN'', ''MANAGER'', ''STAFF''],
                EnforceBranchAccess byParamsBranchId]"
    by (simp add: chainOf_def routes_def)
  have n: "normalizeRole (user_role ?req1) = ''CHEF''" by (rule sample_chef)
  have 1: "requireRoles [''ADMIN'', ''MANAGER'', ''STAFF''] ?req1
             = Respond (Response 403 ''Access denied: role CHEF requires ADMIN, MANAGER, STAFF'')"
    using n by (simp add: requireRoles_def normalizeRole_def toUpperCase_roles)
  have 2: "blockChefFromNonOrders ?req1
             = Respond (Response 403 ''CHEF role can only access Orders. Access denied.'')"
    using n by (simp add: blockChefFromNonOrders_def)
  have 3: "runChain sampleDb (chainOf ''GET'' ''/api/inventory/:branchId'')
             ((incoming (TokenFor 3))\<lparr>req_params := [''branchId'' \<mapsto> JStr ''2'']\<rparr>)
           = Respond (Response 403 ''CHEF role can only access Orders. Access denied.'')"
    unfolding c
    by (simp add: sample_chef attachActiveBranch_def blockChefFromNonOrders_def user_role_def
          normalizeRole_def member_def toUpperCase_roles split: option.splits)
  from 1 2 3 show ?thesis by blast
qed

subsection \<open>The staff list and the category block\<close>

lemma chainOf_staff_list:
  "chainOf ''GET'' ''/api/admin/staff/:branchId'' = [AuthenticateToken, RequireRoles [''ADMIN'', ''MANAGER'']]"
  by (simp add: chainOf_def routes_def)

text \<open>
  C7 at its own example. A \<^verbatim>\<open>CHEF\<close> of branch 2 asking for the staff of branch 2 is
  refused by the role check of \<^verbatim>\<open>GET /api/admin/staff/:branchId\<close>, with the role message:
  the route does not mount the category block.
\<close>

theorem listStaff_chef_denied_by_role:
  "listStaff sampleDb ((incoming (TokenFor 3))\<lparr>req_params := [''branchId'' \<mapsto> JStr ''2'']\<rparr>)
     = Inl (Response 403 ''Access denied: role CHEF requires ADMIN, MANAGER'')
   \<and> BlockChefFromNonOrders \<notin> set (chainOf ''GET'' ''/api/admin/staff/:branchId'')"
  by (simp add: listStaff_def chainOf_staff_list sample_chef(1) requireRoles_def normalizeRole_def
        user_role_def member_def toUpperCase_roles Let_def)


subsection \<open>Requests that resolve to no branch\<close>

lemma chainOf_reservations:
  "chainOf ''GET'' ''/api/reservations''
     = [AuthenticateToken, AttachActiveBranch, BlockChefFromNonOrders, RequireRoles notChef,
        EnforceBranchAccess byQueryOrActive]"
  by (simp add: chainOf_def routes_def)

lemma chainOf_orders_by_branch:
  "chainOf ''GET'' ''/api/orders/:branchId''
     = [AuthenticateToken, AttachActiveBranch, RequireRoles everyRole,
        EnforceBranchAccess byParamsBranchId]"
  by (simp add: chainOf_def routes_def)

lemma sample_admin:
  "findUserById sampleDb 1 = Some ((member 1 ''ADMIN'' 1)\<lparr>activeBranchId := Some 3\<rparr>)"
  by (simp add: findUserById_def sampleDb_def member_def)

lemma sample_manager:
  "findUserById sampleDb 2 = Some (member 2 ''MANAGER'' 5)"
  by (simp add: findUserById_def sampleDb_def member_def)

lemma parseInt_no_number:
  "parseInt (JStr ''abc'') = JNaN" "parseInt (JStr []) = JNaN" "parseInt (JStr ''0'') = JInt 0"
  by (simp_all add: parseInt_def isWhiteSpace_def parseDigits_def digitValue_def mathInt_def)


text \<open>
  The same query is reached with \<^verbatim>\<open>?branchId=0\<close> and with an empty \<^verbatim>\<open>?branchId=\<close>.
\<close>

lemma getReservations_admin_zero_or_empty:
  "getReservations sampleDb ((incoming (TokenFor 1))\<lparr>req_query := [''branchId'' \<mapsto> JStr ''0'']\<rparr>)
     = Inr \<lparr>where_branchId = None, where_userId = None\<rparr>"
  "getReservations sampleDb ((incoming (TokenFor 1))\<lparr>req_query := [''branchId'' \<mapsto> JStr []]\<rparr>)
     = Inr \<lparr>where_branchId = None, where_userId = None\<rparr>"
  unfolding getReservations_def chainOf_reservations
  by (simp_all add: authenticateToken_def sample_admin attachActiveBranch_def incoming_def
        blockChefFromNonOrders_def requireRoles_def notChef_def enforceBranchAccess_def
        normalizeRole_def user_role_def user_branchId_def member_def toUpperCase_roles
        getReservationsHandler_def getProp_def coalesce_def resolveBranchId_def
        parseInt_no_number Let_def)

text \<open>
  The sibling \<^verbatim>\<open>GET /api/orders/:branchId\<close> has the guard \<^verbatim>\<open>if (!branchId)\<close> and answers
  the same \<^verbatim>\<open>ADMIN\<close> asking for \<^verbatim>\<open>abc\<close> with 400; and the \<^verbatim>\<open>MANAGER\<close> of branch 5 who
  sends \<^verbatim>\<open>?branchId=abc\<close> to the reservations list gets the list of branch 5.
\<close>

lemma getOrdersByBranch_admin_non_numeric:
  "getOrdersByBranch sampleDb
     ((incoming (TokenFor 1))\<lparr>req_params := [''branchId'' \<mapsto> JStr ''abc'']\<rparr>)
     = Inl (Response 400 ''branchId is required'')"
  unfolding getOrdersByBranch_def chainOf_orders_by_branch
  by (simp add: authenticateToken_def sample_admin attachActiveBranch_def incoming_def
        requireRoles_def everyRole_def enforceBranchAccess_def
        normalizeRole_def user_role_def user_branchId_def member_def toUpperCase_roles
        getOrdersByBranchHandler_def getProp_def coalesce_def resolveBranchId_def
        parseInt_no_number Let_def)

lemma getReservations_manager_non_numeric:
  "getReservations sampleDb ((incoming (TokenFor 2))\<lparr>req_query := [''branchId'' \<mapsto> JStr ''abc'']\<rparr>)
     = Inr \<lparr>where_branchId = Some (JInt 5), where_userId = None\<rparr>"
  unfolding getReservations_def chainOf_reservations
  by (simp add: authenticateToken_def sample_manager attachActiveBranch_def incoming_def
        blockChefFromNonOrders_def requireRoles_def notChef_def enforceBranchAccess_def
        byQueryOrActive_def normalizeRole_def user_role_def user_branchId_def member_def
        toUpperCase_roles getReservationsHandler_def getProp_def coalesce_def
        resolveBranchId_def parseInt_number Number_def Let_def)


subsection \<open>Writes to the stored active branch\<close>

lemma chainOf_patch:
  "chainOf ''PATCH'' ''/api/users/:id/active-branch'' = [AuthenticateToken, RequireRoles [''ADMIN'']]"
  by (simp add: chainOf_def routes_def)

lemma chainOf_admin_only:
  "chainOf ''POST'' ''/api/admin/staff'' = [AuthenticateToken, RequireRoles [''ADMIN'']]"
  "chainOf ''POST'' ''/api/admin/staff/create'' = [AuthenticateToken, RequireRoles [''ADMIN'']]"
  "chainOf ''POST'' ''/api/admin/users'' = [AuthenticateToken, RequireRoles [''ADMIN'']]"
  "chainOf ''PATCH'' ''/api/admin/staff/:id/reset-password'' = [AuthenticateToken, RequireRoles [''ADMIN'']]"
  "chainOf ''POST'' ''/api/admin/users/:id/reset-password'' = [AuthenticateToken, RequireRoles [''ADMIN'']]"
  by (simp_all add: chainOf_def routes_def)

lemma find_append_existing:
  "find P xs \<noteq> None \<Longrightarrow> find P (xs @ ys) = find P xs"
  by (induction xs) auto

lemma find_map_same:
  "(\<And>x. P (f x) = P x) \<Longrightarrow> (\<And>x. P x \<Longrightarrow> g (f x) = g x)
     \<Longrightarrow> map_option g (find P (map f xs)) = map_option g (find P xs)"
  by (induction xs) auto

lemma createUser_keeps:
  assumes "createUser db e p r b = Returned (u, db')" and "findUserById db i \<noteq> None"
  shows "activeBranchOf db' i = activeBranchOf db i"
  using assms
  by (auto simp: createUser_def activeBranchOf_def findUserById_def Let_def find_append_existing
           split: if_splits)

lemma updatePassword_keeps:
  assumes "updatePassword db j p = Returned (u, db')"
  shows "activeBranchOf db' i = activeBranchOf db i"
proof -
  from assms have "users db' = map (\<lambda>x. if user_id x = j then x\<lparr>password := p\<rparr> else x) (users db)"
    by (auto simp: updatePassword_def split: option.splits)
  then show ?thesis
    unfolding activeBranchOf_def findUserById_def
    by (simp only:) (rule find_map_same; simp)
qed

lemma updateActiveBranchId_keeps_others:
  assumes "updateActiveBranchId db j b = Returned (u, db')" and "i \<noteq> j"
  shows "activeBranchOf db' i = activeBranchOf db i"
proof -
  from assms have "users db'
      = map (\<lambda>x. if user_id x = j then x\<lparr>activeBranchId := Some b\<rparr> else x) (users db)"
    by (auto simp: updateActiveBranchId_def split: option.splits if_splits)
  then show ?thesis
    unfolding activeBranchOf_def findUserById_def
    using \<open>i \<noteq> j\<close> by (simp only:) (rule find_map_same; simp)
qed

lemma signup_effect:
  "snd (signup hash db req) = db
   \<or> (\<exists>e p r b u. createUser db e p r b = Returned (u, snd (signup hash db req)))"
  by (auto simp: signup_def split: jsval.splits jsnum.splits thrown.splits)

lemma createStaffHandler_effect:
  "snd (createStaffHandler cr hash db req) = db
   \<or> (\<exists>e p r b u. createUser db e p r b = Returned (u, snd (createStaffHandler cr hash db req)))"
  by (auto simp: createStaffHandler_def Let_def split: jsval.splits jsnum.splits thrown.splits)

lemma createStaff_effect:
  "snd (createStaff cr hash db req) = db
   \<or> (\<exists>e p r b u. createUser db e p r b = Returned (u, snd (createStaff cr hash db req)))"
  using createStaffHandler_effect [of cr hash db]
  by (auto simp: createStaff_def split: step.splits)

lemma resetPasswordHandler_effect:
  "snd (resetPasswordHandler field onNaN hash db req) = db
   \<or> (\<exists>j p u. updatePassword db j p = Returned (u, snd (resetPasswordHandler field onNaN hash db req)))"
  by (auto simp: resetPasswordHandler_def Let_def
           split: jsval.splits jsnum.splits thrown.splits option.splits)

lemma resetStaffPassword_effect:
  "snd (resetStaffPassword hash db req) = db
   \<or> (\<exists>j p u. updatePassword db j p = Returned (u, snd (resetStaffPassword hash db req)))"
  using resetPasswordHandler_effect [of "''password''" _ hash db]
  by (auto simp: resetStaffPassword_def split: step.splits)

lemma resetUserPassword_effect:
  "snd (resetUserPassword hash db req) = db
   \<or> (\<exists>j p u. updatePassword db j p = Returned (u, snd (resetUserPassword hash db req)))"
  using resetPasswordHandler_effect [of "''newPassword''" _ hash db]
  by (auto simp: resetUserPassword_def split: step.splits)

lemma authenticateToken_Next:
  "authenticateToken db req = Next r1
     \<Longrightarrow> \<exists>u i. r1 = req\<lparr>req_user := Some u\<rparr> \<and> authorization req = TokenFor i
               \<and> findUserById db i = Some u"
  by (auto simp: authenticateToken_def split: credential.splits option.splits)

lemma requireRoles_admin_Next:
  "requireRoles [''ADMIN''] req = Next r \<Longrightarrow> r = req \<and> normalizeRole (user_role req) = ''ADMIN''"
  by (auto simp: requireRoles_def Let_def normalizeRole_def toUpperCase_roles
           split: if_splits)

lemma requireRoles_admin_Respond:
  "requireRoles [''ADMIN''] req = Respond r
     \<Longrightarrow> normalizeRole (user_role req) \<noteq> ''ADMIN'' \<and> (\<exists>m. r = Response 401 m \<or> r = Response 403 m)"
  by (auto simp: requireRoles_def Let_def normalizeRole_def toUpperCase_roles
           split: if_splits)

lemma patchActiveBranchHandler_effect:
  assumes "req_user r = Some u"
  shows "snd (patchActiveBranchHandler db r) = db
    \<or> (\<exists>b upd. parseInt (getProp (req_params r) ''id'') = JInt (user_id u)
          \<and> updateActiveBranchId db (user_id u) b = Returned (upd, snd (patchActiveBranchHandler db r)))"
  using assms
  by (auto simp: patchActiveBranchHandler_def
           split: jsval.splits jsnum.splits thrown.splits option.splits)

lemma patchActiveBranch_effect:
  "snd (patchActiveBranch db req) = db
   \<or> (\<exists>u b upd. authenticateToken db req = Next (req\<lparr>req_user := Some u\<rparr>)
         \<and> normalizeRole (role u) = ''ADMIN''
         \<and> parseInt (getProp (req_params req) ''id'') = JInt (user_id u)
         \<and> updateActiveBranchId db (user_id u) b = Returned (upd, snd (patchActiveBranch db req)))"
proof (cases "authenticateToken db req")
  case (Respond r)
  then show ?thesis by (simp add: patchActiveBranch_def chainOf_patch)
next
  case (Next r1)
  then obtain u where r1: "r1 = req\<lparr>req_user := Some u\<rparr>"
    using authenticateToken_Next by blast
  show ?thesis
  proof (cases "requireRoles [''ADMIN''] r1")
    case (Respond r)
    with Next show ?thesis by (simp add: patchActiveBranch_def chainOf_patch)
  next
    case inner: (Next r2)
    then have r2: "r2 = r1" and adm: "normalizeRole (user_role r1) = ''ADMIN''"
      using requireRoles_admin_Next by blast+
    from adm r1 have adm': "normalizeRole (role u) = ''ADMIN''"
      by (simp add: user_role_def)
    have run: "patchActiveBranch db req = patchActiveBranchHandler db r1"
      using Next inner r2 by (simp add: patchActiveBranch_def chainOf_patch)
    have "req_user r1 = Some u" using r1 by simp
    from patchActiveBranchHandler_effect [OF this, of db]
    show ?thesis
      using run Next r1 adm' by auto
  qed
qed

lemma patchActiveBranch_rejects:
  assumes "authenticateToken db req = Next (req\<lparr>req_user := Some u\<rparr>)"
      and "normalizeRole (role u) \<noteq> ''ADMIN''
           \<or> parseInt (getProp (req_params req) ''id'') \<noteq> JInt (user_id u)"
  shows "\<exists>m. patchActiveBranch db req = (Inl (Response 401 m), db)
            \<or> patchActiveBranch db req = (Inl (Response 403 m), db)"
proof (cases "requireRoles [''ADMIN''] (req\<lparr>req_user := Some u\<rparr>)")
  case (Respond r)
  then obtain m where "r = Response 401 m \<or> r = Response 403 m"
    using requireRoles_admin_Respond by blast
  with Respond assms(1) show ?thesis
    by (auto simp: patchActiveBranch_def chainOf_patch)
next
  case (Next r2)
  then have r2: "r2 = req\<lparr>req_user := Some u\<rparr>"
    and adm: "normalizeRole (user_role (req\<lparr>req_user := Some u\<rparr>)) = ''ADMIN''"
    using requireRoles_admin_Next by blast+
  from adm have "normalizeRole (role u) = ''ADMIN''" by (simp add: user_role_def)
  with assms(2) have other: "parseInt (getProp (req_params req) ''id'') \<noteq> JInt (user_id u)"
    by simp
  have "patchActiveBranch db req = patchActiveBranchHandler db (req\<lparr>req_user := Some u\<rparr>)"
    using assms(1) Next r2 by (simp add: patchActiveBranch_def chainOf_patch)
  moreover have "patchActiveBranchHandler db (req\<lparr>req_user := Some u\<rparr>)
        = (Inl (Response 403 ''Cannot modify other user active branch''), db)"
    using other by (auto simp: patchActiveBranchHandler_def split: jsnum.splits)
  ultimately show ?thesis by auto
qed

lemma perform_keeps_or_own_admin:
  assumes "findUserById db i \<noteq> None"
      and "activeBranchOf (perform hash op db req) i \<noteq> activeBranchOf db i"
  shows "op = PatchActiveBranch
       \<and> (\<exists>u. authenticateToken db req = Next (req\<lparr>req_user := Some u\<rparr>)
              \<and> normalizeRole (role u) = ''ADMIN''
              \<and> parseInt (getProp (req_params req) ''id'') = JInt (user_id u)
              \<and> i = user_id u)"
proof (cases op)
  case Signup
  with assms signup_effect [of hash db req] show ?thesis
    by (auto dest: createUser_keeps)
next
  case (CreateStaff cr)
  with assms createStaff_effect [of cr hash db req] show ?thesis
    by (auto dest: createUser_keeps)
next
  case ResetStaffPassword
  with assms resetStaffPassword_effect [of hash db req] show ?thesis
    by (auto dest: updatePassword_keeps)
next
  case ResetUserPassword
  with assms resetUserPassword_effect [of hash db req] show ?thesis
    by (auto dest: updatePassword_keeps)
next
  case PatchActiveBranch
  with assms patchActiveBranch_effect [of db req] show ?thesis
    by (auto dest: updateActiveBranchId_keeps_others)
qed

text \<open>
  C9. Of the requests that write \<^verbatim>\<open>User\<close>, only \<^verbatim>\<open>PATCH /api/users/:id/active-branch\<close>
  changes the stored \<^verbatim>\<open>activeBranchId\<close> of an existing user, and only when the caller is
  authenticated with role \<^verbatim>\<open>ADMIN\<close>, the id in the path is the caller's own, and the
  user changed is the caller. When the caller is not an \<^verbatim>\<open>ADMIN\<close>, or the id in the path
  is not the caller's, the request is answered with 401 or 403 and the database is left as
  it was.
\<close>

theorem activeBranchId_written_only_by_own_admin:
  "(\<forall>i. findUserById db i \<noteq> None
          \<and> activeBranchOf (perform hash op db req) i \<noteq> activeBranchOf db i
        \<longrightarrow> op = PatchActiveBranch
            \<and> (\<exists>u. authenticateToken db req = Next (req\<lparr>req_user := Some u\<rparr>)
                   \<and> normalizeRole (role u) = ''ADMIN''
                   \<and> parseInt (getProp (req_params req) ''id'') = JInt (user_id u)
                   \<and> i = user_id u))
   \<and> (\<forall>u. authenticateToken db req = Next (req\<lparr>req_user := Some u\<rparr>)
          \<and> (normalizeRole (role u) \<noteq> ''ADMIN''
               \<or> parseInt (getProp (req_params req) ''id'') \<noteq> JInt (user_id u))
        \<longrightarrow> (\<exists>s m. (s = 401 \<or> s = 403)
                  \<and> patchActiveBranch db req = (Inl (Response s m), db)))"
proof -
  have 1: "\<And>i. findUserById db i \<noteq> None
          \<Longrightarrow> activeBranchOf (perform hash op db req) i \<noteq> activeBranchOf db i
          \<Longrightarrow> op = PatchActiveBranch
            \<and> (\<exists>u. authenticateToken db req = Next (req\<lparr>req_user := Some u\<rparr>)
                   \<and> normalizeRole (role u) = ''ADMIN''
                   \<and> parseInt (getProp (req_params req) ''id'') = JInt (user_id u)
                   \<and> i = user_id u)"
    by (rule perform_keeps_or_own_admin)
  have 2: "\<And>u. authenticateToken db req = Next (req\<lparr>req_user := Some u\<rparr>)
          \<Longrightarrow> normalizeRole (role u) \<noteq> ''ADMIN''
               \<or> parseInt (getProp (req_params req) ''id'') \<noteq> JInt (user_id u)
          \<Longrightarrow> \<exists>s m. (s = 401 \<or> s = 403)
                  \<and> patchActiveBranch db req = (Inl (Response s m), db)"
    using patchActiveBranch_rejects [of db req] by blast
  from 1 2 show ?thesis by blast
qed

lemma parseInt_1: "parseInt (JStr ''1'') = JInt 1"
  by (simp add: parseInt_def isWhiteSpace_def parseDigits_def digitValue_def mathInt_def)

lemma sample_patch_own:
  "patchActiveBranch sampleDb
     ((incoming (TokenFor 1))\<lparr>req_params := [''id'' \<mapsto> JStr ''1''],
                               req_body := [''branchId'' \<mapsto> JNum (JInt 7)]\<rparr>)
   = (Inr (Some 7),
      sampleDb\<lparr>users :=
        [(member 1 ''ADMIN'' 1)\<lparr>activeBranchId := Some 7\<rparr>,
         member 2 ''MANAGER'' 5,
         member 3 ''CHEF'' 2,
         member 4 ''STAFF'' 2,
         member 5 ''CUSTOMER'' 2,
         (member 8 ''ADMIN'' 1)\<lparr>email := ''owner@steakz.com''\<rparr>]\<rparr>)"
  unfolding patchActiveBranch_def chainOf_patch
  by (simp add: authenticateToken_def sample_admin incoming_def requireRoles_def
        normalizeRole_def user_role_def member_def toUpperCase_roles Let_def
        patchActiveBranchHandler_def getProp_def parseInt_1 updateActiveBranchId_def
        findUserById_def sampleDb_def)

text \<open>
  The \<^verbatim>\<open>ADMIN\<close> with id 1 moves its own active branch from 3 to 7; the \<^verbatim>\<open>MANAGER\<close> with
  id 2 asking the same for itself is refused and nothing changes.
\<close>

theorem activeBranchId_written_only_by_own_admin_witness:
  "findUserById sampleDb 1 \<noteq> None
   \<and> activeBranchOf sampleDb 1 = Some (Some 3)
   \<and> activeBranchOf (perform (\<lambda>p. p) PatchActiveBranch sampleDb
         ((incoming (TokenFor 1))\<lparr>req_params := [''id'' \<mapsto> JStr ''1''],
                                   req_body := [''branchId'' \<mapsto> JNum (JInt 7)]\<rparr>)) 1
       = Some (Some 7)
   \<and> (\<exists>u. authenticateToken sampleDb
            ((incoming (TokenFor 1))\<lparr>req_params := [''id'' \<mapsto> JStr ''1''],
                                      req_body := [''branchId'' \<mapsto> JNum (JInt 7)]\<rparr>)
           = Next ((incoming (TokenFor 1))\<lparr>req_params := [''id'' \<mapsto> JStr ''1''],
                                      req_body := [''branchId'' \<mapsto> JNum (JInt 7)],
                                      req_user := Some u\<rparr>)
          \<and> normalizeRole (role u) = ''ADMIN'' \<and> user_id u = 1)
   \<and> authenticateToken sampleDb
         ((incoming (TokenFor 2))\<lparr>req_params := [''id'' \<mapsto> JStr ''2''],
                                   req_body := [''branchId'' \<mapsto> JNum (JInt 7)]\<rparr>)
       = Next ((incoming (TokenFor 2))\<lparr>req_params := [''id'' \<mapsto> JStr ''2''],
                                   req_body := [''branchId'' \<mapsto> JNum (JInt 7)],
                                   req_user := Some (member 2 ''MANAGER'' 5)\<rparr>)
   \<and> normalizeRole (role (member 2 ''MANAGER'' 5)) \<noteq> ''ADMIN''
   \<and> (\<exists>s m. (s = 401 \<or> s = 403)
         \<and> patchActiveBranch sampleDb
              ((incoming (TokenFor 2))\<lparr>req_params := [''id'' \<mapsto> JStr ''2''],
                                        req_body := [''branchId'' \<mapsto> JNum (JInt 7)]\<rparr>)
             = (Inl (Response s m), sampleDb))"
proof -
  let ?r1 = "(incoming (TokenFor 1))\<lparr>req_params := [''id'' \<mapsto> JStr ''1''],
                                   req_body := [''branchId'' \<mapsto> JNum (JInt 7)]\<rparr>"
  let ?r2 = "(incoming (TokenFor 2))\<lparr>req_params := [''id'' \<mapsto> JStr ''2''],
                                   req_body := [''branchId'' \<mapsto> JNum (JInt 7)]\<rparr>"
  note t = activeBranchId_written_only_by_own_admin
  have e: "findUserById sampleDb 1 \<noteq> None" by (simp add: sample_admin)
  have before: "activeBranchOf sampleDb 1 = Some (Some 3)"
    by (simp add: activeBranchOf_def sample_admin)
  have after: "activeBranchOf (perform (\<lambda>p. p) PatchActiveBranch sampleDb ?r1) 1 = Some (Some 7)"
    by (simp add: sample_patch_own activeBranchOf_def findUserById_def member_def)
  from before after
  have changed: "activeBranchOf (perform (\<lambda>p. p) PatchActiveBranch sampleDb ?r1) 1
                   \<noteq> activeBranchOf sampleDb 1"
    by simp
  from t [of sampleDb "\<lambda>p. p" PatchActiveBranch ?r1] e changed
  have "\<exists>u. authenticateToken sampleDb ?r1 = Next (?r1\<lparr>req_user := Some u\<rparr>)
          \<and> normalizeRole (role u) = ''ADMIN'' \<and> 1 = user_id u"
    by blast
  then have own: "\<exists>u. authenticateToken sampleDb ?r1 = Next (?r1\<lparr>req_user := Some u\<rparr>)
          \<and> normalizeRole (role u) = ''ADMIN'' \<and> user_id u = 1"
    by metis
  have a2: "authenticateToken sampleDb ?r2 = Next (?r2\<lparr>req_user := Some (member 2 ''MANAGER'' 5)\<rparr>)"
    by (simp add: authenticateToken_def sample_manager incoming_def)
  have n2: "normalizeRole (role (member 2 ''MANAGER'' 5)) \<noteq> ''ADMIN''"
    by (simp add: normalizeRole_def member_def toUpperCase_roles)
  from t [of sampleDb "\<lambda>p. p" PatchActiveBranch ?r2] a2 n2
  have rej: "\<exists>s m. (s = 401 \<or> s = 403)
         \<and> patchActiveBranch sampleDb ?r2 = (Inl (Response s m), sampleDb)"
    by blast
  from e before after own a2 n2 rej show ?thesis by blast
qed

end
